theory Spec2Isabelle
  imports Complex_Main "HOL-Library.Sublist" "HOL-Library.Char_ord"
begin

section \<open>JavaScript strings and the string methods the solver uses\<close>

text \<open>
  A JavaScript string is a sequence of UTF-16 code units. The model covers the strings
  whose code units are below 256: a \<^typ>\<open>char\<close> is the code unit with that number
  (\<open>of_char\<close>), and a \<^typ>\<open>string\<close> is the sequence. The string methods below are the
  ECMAScript ones restricted to that alphabet.
\<close>

text \<open>\<open>String.prototype.includes\<close>, \<open>startsWith\<close>, \<open>endsWith\<close>.\<close>

fun includes_js :: "string \<Rightarrow> string \<Rightarrow> bool" where
  "includes_js [] p = (p = [])"
| "includes_js (c # s) p = (prefix p (c # s) \<or> includes_js s p)"

definition startsWith :: "string \<Rightarrow> string \<Rightarrow> bool" where
  "startsWith s p = prefix p s"

definition endsWith :: "string \<Rightarrow> string \<Rightarrow> bool" where
  "endsWith s p = suffix p s"

text \<open>
  \<open>String.prototype.toLowerCase\<close>: below 256 the upper-case letters are \<open>A\<close>..\<open>Z\<close>
  (65..90) and the Latin-1 capitals 192..222 without the multiplication sign 215; each
  lower-case partner is 32 above.
\<close>

definition lower_char :: "char \<Rightarrow> char" where
  "lower_char c =
     (let n = (of_char c :: nat) in
      if (65 \<le> n \<and> n \<le> 90) \<or> (192 \<le> n \<and> n \<le> 222 \<and> n \<noteq> 215)
      then char_of (n + 32) else c)"

definition toLowerCase :: "string \<Rightarrow> string" where
  "toLowerCase s = map lower_char s"

text \<open>
  \<open>String.prototype.trim\<close> removes white space and line terminators from both ends.
  Below 256 these are TAB, LF, VT, FF, CR (9..13), SPACE (32) and NBSP (160).
\<close>

definition is_space :: "char \<Rightarrow> bool" where
  "is_space c = (let n = (of_char c :: nat) in (9 \<le> n \<and> n \<le> 13) \<or> n = 32 \<or> n = 160)"

definition trim :: "string \<Rightarrow> string" where
  "trim s = rev (dropWhile is_space (rev (dropWhile is_space s)))"

section \<open>File Type Classifier: \<open>detectFileType\<close>\<close>

definition detectFileType :: "string \<Rightarrow> string \<Rightarrow> string" where
  "detectFileType url fileName =
     (let lower = toLowerCase (url @ '' '' @ fileName) in
      if includes_js lower ''.csv'' then ''csv''
      else if includes_js lower ''.xlsx'' \<or> includes_js lower ''.xls'' then ''excel''
      else if includes_js lower ''.pdf'' then ''pdf''
      else if includes_js lower ''.json'' then ''json''
      else if includes_js lower ''.jpg'' \<or> includes_js lower ''.jpeg'' \<or> includes_js lower ''.png'' \<or>
              includes_js lower ''.gif'' \<or> includes_js lower ''.bmp'' \<or> includes_js lower ''.webp''
           then ''image''
      else if includes_js lower ''.mp3'' \<or> includes_js lower ''.wav'' \<or> includes_js lower ''.ogg'' \<or>
              includes_js lower ''.m4a''
           then ''audio''
      else if includes_js lower ''.mp4'' \<or> includes_js lower ''.avi'' \<or> includes_js lower ''.mov'' \<or>
              includes_js lower ''.mkv''
           then ''video''
      else ''text'')"

text \<open>
  The classifier as the specification words it: a fixed ordered table of patterns, the
  first pattern that occurs in the text decides, and no match gives \<open>text\<close>.
\<close>

definition pattern_table :: "(string \<times> string) list" where
  "pattern_table =
     [(''.csv'', ''csv''),
      (''.xlsx'', ''excel''), (''.xls'', ''excel''),
      (''.pdf'', ''pdf''),
      (''.json'', ''json''),
      (''.jpg'', ''image''), (''.jpeg'', ''image''), (''.png'', ''image''),
      (''.gif'', ''image''), (''.bmp'', ''image''), (''.webp'', ''image''),
      (''.mp3'', ''audio''), (''.wav'', ''audio''), (''.ogg'', ''audio''), (''.m4a'', ''audio''),
      (''.mp4'', ''video''), (''.avi'', ''video''), (''.mov'', ''video''), (''.mkv'', ''video'')]"

definition first_match :: "(string \<times> string) list \<Rightarrow> string \<Rightarrow> string" where
  "first_match table lower =
     (case find (\<lambda>(pattern, tag). includes_js lower pattern) table of
        None \<Rightarrow> ''text''
      | Some (pattern, tag) \<Rightarrow> tag)"

section \<open>JavaScript values\<close>

text \<open>
  A number is NaN, an infinity, or a finite value. The finite values are kept as the exact
  mathematical value of the numeral that was read; rounding to an IEEE double (and the
  overflow of a huge numeral to an infinity, and the sign of zero) is outside the model.
\<close>

datatype jsnumber = NaN | PosInfinity | NegInfinity | Num rat

definition isNaN :: "jsnumber \<Rightarrow> bool" where
  "isNaN n = (n = NaN)"

definition negate :: "jsnumber \<Rightarrow> jsnumber" where
  "negate n = (case n of NaN \<Rightarrow> NaN | PosInfinity \<Rightarrow> NegInfinity
               | NegInfinity \<Rightarrow> PosInfinity | Num q \<Rightarrow> Num (- q))"

text \<open>
  The values that flow through the solver untyped: the result of \<open>JSON.parse\<close>, the
  answer, the body of the grading server's response and the fields read from it. An
  object is its list of properties in source order; a later entry for the same key
  shadows an earlier one.
\<close>

datatype jsvalue =
    JUndefined
  | JNull
  | JBool bool
  | JNum jsnumber
  | JStr string
  | JArr "jsvalue list"
  | JObj "(string \<times> jsvalue) list"

text \<open>The HTTP response axios hands over: status and parsed body.\<close>

record http_response =
  status :: nat
  data :: jsvalue

text \<open>
  Thrown values are \<open>Error\<close> objects: a message, and the \<open>response\<close> property that axios
  sets on its error when the server answered with an error status. Every \<open>throw\<close> of the
  repository throws a new \<open>Error\<close> or rethrows the error it caught, and so do the
  libraries it calls.
\<close>

datatype js_error = Error string "http_response option"

fun message :: "js_error \<Rightarrow> string" where
  "message (Error m r) = m"

fun response :: "js_error \<Rightarrow> http_response option" where
  "response (Error m r) = r"

section \<open>\<open>Number(string)\<close>: the StringToNumber conversion of ECMAScript\<close>

text \<open>
  The value of a character as a digit (\<open>0\<close>..\<open>9\<close>, \<open>a\<close>..\<open>f\<close>, \<open>A\<close>..\<open>F\<close>), the digits of
  a radix, and the value of a digit string.
\<close>

definition digit_val :: "char \<Rightarrow> nat option" where
  "digit_val c =
     (let n = (of_char c :: nat) in
      if 48 \<le> n \<and> n \<le> 57 then Some (n - 48)
      else if 97 \<le> n \<and> n \<le> 102 then Some (n - 87)
      else if 65 \<le> n \<and> n \<le> 70 then Some (n - 55)
      else None)"

definition is_digit_in :: "nat \<Rightarrow> char \<Rightarrow> bool" where
  "is_digit_in radix c = (case digit_val c of Some d \<Rightarrow> d < radix | None \<Rightarrow> False)"

definition digits_value :: "nat \<Rightarrow> string \<Rightarrow> nat" where
  "digits_value radix ds =
     foldl (\<lambda>acc c. radix * acc + (case digit_val c of Some d \<Rightarrow> d | None \<Rightarrow> 0)) 0 ds"

definition DecimalDigits :: "string \<Rightarrow> nat option" where
  "DecimalDigits ds =
     (if ds \<noteq> [] \<and> list_all (is_digit_in 10) ds then Some (digits_value 10 ds) else None)"

text \<open>
  The text after the mantissa: nothing (exponent 0), or \<open>e\<close>/\<open>E\<close>, an optional sign and
  one or more digits.
\<close>

definition ExponentPart :: "string \<Rightarrow> int option" where
  "ExponentPart s =
     (case s of
        [] \<Rightarrow> Some 0
      | c # r \<Rightarrow>
          if c = CHR ''e'' \<or> c = CHR ''E'' then
            (case r of
               [] \<Rightarrow> None
             | d # r' \<Rightarrow>
                 if d = CHR ''+'' then map_option int (DecimalDigits r')
                 else if d = CHR ''-'' then map_option (\<lambda>n. - int n) (DecimalDigits r')
                 else map_option int (DecimalDigits r))
          else None)"

definition scale10 :: "rat \<Rightarrow> int \<Rightarrow> rat" where
  "scale10 q e = (if 0 \<le> e then q * 10 ^ nat e else q / 10 ^ nat (- e))"

text \<open>
  \<open>StrUnsignedDecimalLiteral\<close>: \<open>Infinity\<close>, or digits with an optional fraction
  (\<open>12\<close>, \<open>12.\<close>, \<open>12.5\<close>, \<open>.5\<close>) and an optional exponent. Anything else is NaN.
\<close>

definition StrUnsignedDecimalLiteral :: "string \<Rightarrow> jsnumber" where
  "StrUnsignedDecimalLiteral s =
     (if s = ''Infinity'' then PosInfinity
      else
        let ip = takeWhile (is_digit_in 10) s;
            r1 = dropWhile (is_digit_in 10) s;
            has_dot = (r1 \<noteq> [] \<and> hd r1 = CHR ''.'');
            fp = (if has_dot then takeWhile (is_digit_in 10) (tl r1) else []);
            r2 = (if has_dot then dropWhile (is_digit_in 10) (tl r1) else r1)
        in if ip = [] \<and> fp = [] then NaN
           else
             (case ExponentPart r2 of
                None \<Rightarrow> NaN
              | Some e \<Rightarrow>
                  Num (scale10 (of_nat (digits_value 10 ip)
                                + of_nat (digits_value 10 fp) / 10 ^ length fp) e)))"

definition StrDecimalLiteral :: "string \<Rightarrow> jsnumber" where
  "StrDecimalLiteral s =
     (case s of
        [] \<Rightarrow> NaN
      | c # r \<Rightarrow>
          if c = CHR ''+'' then StrUnsignedDecimalLiteral r
          else if c = CHR ''-'' then negate (StrUnsignedDecimalLiteral r)
          else StrUnsignedDecimalLiteral s)"

text \<open>\<open>NonDecimalIntegerLiteral\<close>: \<open>0x\<close>, \<open>0o\<close>, \<open>0b\<close> (either case) and digits of that radix; no sign.\<close>

definition radix_prefix :: "string \<Rightarrow> (nat \<times> string) option" where
  "radix_prefix s =
     (case s of
        z # c # r \<Rightarrow>
          if z \<noteq> CHR ''0'' then None
          else if c = CHR ''x'' \<or> c = CHR ''X'' then Some (16, r)
          else if c = CHR ''o'' \<or> c = CHR ''O'' then Some (8, r)
          else if c = CHR ''b'' \<or> c = CHR ''B'' then Some (2, r)
          else None
      | _ \<Rightarrow> None)"

definition StrNumericLiteral :: "string \<Rightarrow> jsnumber" where
  "StrNumericLiteral s =
     (case radix_prefix s of
        Some (radix, ds) \<Rightarrow>
          if ds \<noteq> [] \<and> list_all (is_digit_in radix) ds
          then Num (of_nat (digits_value radix ds)) else NaN
      | None \<Rightarrow> StrDecimalLiteral s)"

text \<open>\<open>Number(s)\<close> for a string: white space is stripped, the empty string is 0.\<close>

definition Number_js :: "string \<Rightarrow> jsnumber" where
  "Number_js s = (let t = trim s in if t = [] then Num 0 else StrNumericLiteral t)"

section \<open>Answer Normalizer: \<open>parseAnswer\<close>\<close>

text \<open>
  \<open>JSON.parse\<close> is the platform's; it is a parameter of the model: a function that
  returns the parsed value or throws a SyntaxError. \<open>parseAnswer\<close> returns a value or
  throws, as a JavaScript function does; the \<open>try\<close>/\<open>catch\<close> around \<open>JSON.parse\<close> is
  the \<open>case\<close> that turns a thrown error into "no value, continue".
\<close>

definition parseAnswer :: "(string \<Rightarrow> js_error + jsvalue) \<Rightarrow> string \<Rightarrow> js_error + jsvalue" where
  "parseAnswer JSON_parse rawAnswer =
     (let trimmed = trim rawAnswer;
          parsed =
            (if (startsWith trimmed ''{'' \<and> endsWith trimmed ''}'') \<or>
                (startsWith trimmed ''['' \<and> endsWith trimmed '']'')
             then (case JSON_parse trimmed of Inr v \<Rightarrow> Some v | Inl e \<Rightarrow> None)
             else None)
      in case parsed of
           Some v \<Rightarrow> Inr v
         | None \<Rightarrow>
             if toLowerCase trimmed = ''true'' then Inr (JBool True)
             else if toLowerCase trimmed = ''false'' then Inr (JBool False)
             else
               let num = Number_js trimmed in
               if \<not> isNaN num \<and> trimmed \<noteq> [] then Inr (JNum num)
               else if startsWith trimmed ''data:'' then Inr (JStr trimmed)
               else Inr (JStr trimmed))"

text \<open>
  The Answer Normalizer as the specification words it. \<open>AnswerValue\<close> is the tagged
  union of the data model, \<open>js_of\<close> is the JavaScript value a variant stands for, and
  \<open>normalize_spec\<close> attempts the five checks in the stated order on the trimmed text, the
  first that matches deciding.
\<close>

datatype AnswerValue =
    NumberV jsnumber
  | BooleanV bool
  | StringV string
  | JSONValue jsvalue
  | DataURI string

fun js_of :: "AnswerValue \<Rightarrow> jsvalue" where
  "js_of (NumberV n) = JNum n"
| "js_of (BooleanV b) = JBool b"
| "js_of (StringV s) = JStr s"
| "js_of (JSONValue v) = v"
| "js_of (DataURI s) = JStr s"

definition bounded :: "string \<Rightarrow> bool" where
  "bounded t = ((startsWith t ''{'' \<and> endsWith t ''}'') \<or> (startsWith t ''['' \<and> endsWith t '']''))"

definition check_json :: "(string \<Rightarrow> js_error + jsvalue) \<Rightarrow> string \<Rightarrow> AnswerValue option" where
  "check_json JSON_parse t =
     (if bounded t then (case JSON_parse t of Inr v \<Rightarrow> Some (JSONValue v) | Inl e \<Rightarrow> None)
      else None)"

definition check_boolean :: "string \<Rightarrow> AnswerValue option" where
  "check_boolean t =
     (if toLowerCase t = ''true'' then Some (BooleanV True)
      else if toLowerCase t = ''false'' then Some (BooleanV False)
      else None)"

definition check_number :: "string \<Rightarrow> AnswerValue option" where
  "check_number t =
     (if Number_js t \<noteq> NaN \<and> t \<noteq> [] then Some (NumberV (Number_js t)) else None)"

definition check_datauri :: "string \<Rightarrow> AnswerValue option" where
  "check_datauri t = (if startsWith t ''data:'' then Some (DataURI t) else None)"

fun first_some :: "'a option list \<Rightarrow> 'a \<Rightarrow> 'a" where
  "first_some [] d = d"
| "first_some (None # checks) d = first_some checks d"
| "first_some (Some v # checks) d = v"

definition normalize_spec :: "(string \<Rightarrow> js_error + jsvalue) \<Rightarrow> string \<Rightarrow> AnswerValue" where
  "normalize_spec JSON_parse raw =
     (let t = trim raw in
      first_some [check_json JSON_parse t, check_boolean t, check_number t, check_datauri t]
        (StringV t))"




section \<open>The solver's data\<close>

text \<open>
  What \<open>extractQuizFromPage\<close> returns: the question, the page text, the submission URL
  (\<open>null\<close> when the page shows none) and the candidate file links in page order. The
  field \<open>text'\<close> is the link's \<open>text\<close>.
\<close>

record FileLink =
  url :: string
  text' :: string

record QuizPage =
  question :: string
  content :: string
  submitUrl :: "string option"
  files :: "FileLink list"

text \<open>The object \<open>solveSingleQuiz\<close> returns; an absent property is \<open>undefined\<close>.\<close>

record quiz_result =
  success :: jsvalue
  nextUrl :: jsvalue
  error :: jsvalue

text \<open>Truthiness, as \<open>if (x)\<close> and \<open>while (x && ...)\<close> test it.\<close>

fun truthy :: "jsvalue \<Rightarrow> bool" where
  "truthy JUndefined = False"
| "truthy JNull = False"
| "truthy (JBool b) = b"
| "truthy (JNum n) = (n \<noteq> NaN \<and> n \<noteq> Num 0)"
| "truthy (JStr s) = (s \<noteq> [])"
| "truthy (JArr vs) = True"
| "truthy (JObj kvs) = True"

text \<open>
  Reading one of the properties \<open>correct\<close>, \<open>url\<close>, \<open>reason\<close> of a value: a TypeError on
  \<open>null\<close> and \<open>undefined\<close>; otherwise the property's value on an object that has it
  and \<open>undefined\<close> on any other value. The text of the TypeError's message is the
  engine's; the model fixes one.
\<close>

definition property :: "jsvalue \<Rightarrow> string \<Rightarrow> jsvalue" where
  "property v key =
     (case v of
        JObj kvs \<Rightarrow> (case map_of (rev kvs) key of Some x \<Rightarrow> x | None \<Rightarrow> JUndefined)
      | _ \<Rightarrow> JUndefined)"

definition get_prop :: "jsvalue \<Rightarrow> string \<Rightarrow> js_error + jsvalue" where
  "get_prop v key =
     (case v of
        JUndefined \<Rightarrow> Inl (Error (''Cannot read properties of undefined (reading '' @ key @ '')'') None)
      | JNull \<Rightarrow> Inl (Error (''Cannot read properties of null (reading '' @ key @ '')'') None)
      | _ \<Rightarrow> Inr (property v key))"

section \<open>The collaborators and the state they act on\<close>

text \<open>
  The renderer, the downloader, the extractors, the LLM client and the HTTP client are
  outside the solver. Each is a function on a world \<open>'w\<close> that returns a value or throws
  and leaves a new world; the clock is read from the world. The platform functions
  \<open>JSON.parse\<close>, \<open>JSON.stringify(v, null, 2)\<close>, the conversion of a value to a string in a
  template literal and \<open>Buffer.toString\<close> are pure parameters. A downloaded file is its
  bytes. The renderer returns the page with the fields it builds (strings, a string or
  \<open>null\<close>, a list of links), the LLM client the completion text; what an extractor
  returns and what the grading server answers are values of any shape.
\<close>

type_synonym buffer = "char list"

record 'w env =
  extractQuizFromPage :: "jsvalue \<Rightarrow> 'w \<Rightarrow> (js_error + QuizPage) \<times> 'w"
  downloadFile :: "string \<Rightarrow> 'w \<Rightarrow> (js_error + buffer) \<times> 'w"
  processCSV :: "buffer \<Rightarrow> 'w \<Rightarrow> (js_error + jsvalue) \<times> 'w"
  processPDF :: "buffer \<Rightarrow> 'w \<Rightarrow> (js_error + jsvalue) \<times> 'w"
  processImage :: "buffer \<Rightarrow> 'w \<Rightarrow> (js_error + jsvalue) \<times> 'w"
  processAudio :: "buffer \<Rightarrow> 'w \<Rightarrow> (js_error + jsvalue) \<times> 'w"
  processVideo :: "buffer \<Rightarrow> 'w \<Rightarrow> (js_error + jsvalue) \<times> 'w"
  processExcel :: "buffer \<Rightarrow> 'w \<Rightarrow> (js_error + jsvalue) \<times> 'w"
  askClaude :: "string \<Rightarrow> 'w \<Rightarrow> (js_error + string) \<times> 'w"
  axios_post :: "string option \<Rightarrow> jsvalue \<Rightarrow> 'w \<Rightarrow> (js_error + http_response) \<times> 'w"
  Date_now :: "'w \<Rightarrow> int"
  JSON_parse :: "string \<Rightarrow> js_error + jsvalue"
  JSON_stringify :: "jsvalue \<Rightarrow> string"
  String_of :: "jsvalue \<Rightarrow> string"
  Buffer_toString :: "buffer \<Rightarrow> string"

text \<open>
  The state the solver runs on is the world together with the list of collaborator calls
  made so far. The list is an observation only: \<open>call\<close> appends to it, nothing reads it,
  and a collaborator sees the world alone.
\<close>

datatype event =
    Called_extractQuizFromPage jsvalue
  | Called_downloadFile string
  | Called_extractor string
  | Called_askClaude string
  | Called_axios_post "string option" jsvalue

record 'w state =
  world :: 'w
  calls :: "event list"

definition call :: "event \<Rightarrow> ('w \<Rightarrow> (js_error + 'a) \<times> 'w) \<Rightarrow> 'w state \<Rightarrow> (js_error + 'a) \<times> 'w state" where
  "call ev f s = (case f (world s) of (r, w) \<Rightarrow> (r, \<lparr>world = w, calls = calls s @ [ev]\<rparr>))"

section \<open>Single-Quiz Solver: \<open>submitAnswer\<close>, \<open>solveQuizQuestion\<close>, \<open>solveSingleQuiz\<close>\<close>

definition submission_payload :: "string \<Rightarrow> string \<Rightarrow> jsvalue \<Rightarrow> jsvalue \<Rightarrow> jsvalue" where
  "submission_payload email secret quizUrl answer =
     JObj [(''email'', JStr email), (''secret'', JStr secret), (''url'', quizUrl), (''answer'', answer)]"

definition submitAnswer ::
  "'w env \<Rightarrow> string \<Rightarrow> string \<Rightarrow> jsvalue \<Rightarrow> jsvalue \<Rightarrow> string option \<Rightarrow> 'w state
     \<Rightarrow> (js_error + jsvalue) \<times> 'w state" where
  "submitAnswer env email secret quizUrl answer submit_url s =
     (let payload = submission_payload email secret quizUrl answer
      in case call (Called_axios_post submit_url payload) (axios_post env submit_url payload) s of
           (Inr resp, s1) \<Rightarrow> (Inr (data resp), s1)
         | (Inl err, s1) \<Rightarrow>
             (case response err of
                Some resp \<Rightarrow> (Inr (data resp), s1)
              | None \<Rightarrow> (Inl err, s1)))"

text \<open>The two prompts. \<open>nl\<close> is the line feed and \<open>dq\<close> the double quote.\<close>

definition nl :: string where
  "nl = [CHR 0x0A]"

definition dq :: string where
  "dq = [CHR 0x22]"

definition unlines :: "string list \<Rightarrow> string" where
  "unlines ls = concat (map (\<lambda>l. l @ nl) (butlast ls)) @ last ls"

text \<open>
  The processed data as the template shows it: \<open>JSON.stringify\<close> when \<open>typeof\<close> is
  \<open>object\<close> (objects, arrays and \<open>null\<close>), the string itself, and the string conversion
  of any other value.
\<close>

definition render_processed :: "'w env \<Rightarrow> jsvalue \<Rightarrow> string" where
  "render_processed env processedData =
     (case processedData of
        JObj kvs \<Rightarrow> JSON_stringify env processedData
      | JArr vs \<Rightarrow> JSON_stringify env processedData
      | JNull \<Rightarrow> JSON_stringify env processedData
      | JStr str \<Rightarrow> str
      | _ \<Rightarrow> String_of env processedData)"

definition analysisPrompt :: "string \<Rightarrow> string \<Rightarrow> string \<Rightarrow> string \<Rightarrow> string" where
  "analysisPrompt q file_text rendered page_content =
     unlines
       [''You are solving a quiz question. Here is the question:'',
        '''',
        q,
        '''',
        ''Here is the processed data from the file '' @ dq @ file_text @ dq @ '':'',
        rendered,
        '''',
        ''Additional context from the page:'',
        page_content,
        '''',
        ''Analyze this data and provide the EXACT answer to the question. Your response should be ONLY the answer value, nothing else.'',
        '''',
        ''Rules:'',
        ''- If the answer is a number, respond with just the number (e.g., 42 or 3.14)'',
        ''- If the answer is text, respond with just the text (e.g., '' @ dq @ ''hello'' @ dq @ '')'',
        ''- If the answer is boolean, respond with true or false'',
        ''- If the answer is a JSON object, respond with valid JSON only'',
        ''- If you need to generate a chart/image, create it and respond with the base64 data URI'',
        ''- Do not include any explanation or extra text'',
        '''',
        ''Answer:'']"

definition directPrompt :: "string \<Rightarrow> string \<Rightarrow> string" where
  "directPrompt q page_content =
     unlines
       [''You are solving a quiz question. Here is the complete context:'',
        '''',
        ''Question: '' @ q,
        '''',
        ''Page content:'',
        page_content,
        '''',
        ''Analyze this and provide the EXACT answer. Your response should be ONLY the answer value.'',
        '''',
        ''Rules:'',
        ''- If the answer is a number, respond with just the number'',
        ''- If the answer is text, respond with just the text'',
        ''- If the answer is boolean, respond with true or false'',
        ''- If the answer is a JSON object, respond with valid JSON only'',
        ''- Do not include any explanation'',
        '''',
        ''Answer:'']"

text \<open>
  The body of the \<open>try\<close> in the loop over the files, in two steps. \<open>extractContent\<close> is
  the download and the dispatch to the extractor of the detected type; \<open>processFile\<close> adds
  the file-grounded prompt, the LLM query and the normalization of its answer. Either
  returns the value or the error that was thrown.
\<close>

definition extractContent :: "'w env \<Rightarrow> FileLink \<Rightarrow> 'w state \<Rightarrow> (js_error + jsvalue) \<times> 'w state" where
  "extractContent env fileInfo s =
     (case call (Called_downloadFile (url fileInfo)) (downloadFile env (url fileInfo)) s of
        (Inl err, s1) \<Rightarrow> (Inl err, s1)
      | (Inr fileData, s1) \<Rightarrow>
          let fileType = detectFileType (url fileInfo) (text' fileInfo) in
          if fileType = ''csv'' then call (Called_extractor ''processCSV'') (processCSV env fileData) s1
          else if fileType = ''pdf'' then call (Called_extractor ''processPDF'') (processPDF env fileData) s1
          else if fileType = ''image'' then call (Called_extractor ''processImage'') (processImage env fileData) s1
          else if fileType = ''audio'' then call (Called_extractor ''processAudio'') (processAudio env fileData) s1
          else if fileType = ''video'' then call (Called_extractor ''processVideo'') (processVideo env fileData) s1
          else if fileType = ''json'' then (JSON_parse env (Buffer_toString env fileData), s1)
          else if fileType = ''excel'' then call (Called_extractor ''processExcel'') (processExcel env fileData) s1
          else (Inr (JStr (Buffer_toString env fileData)), s1))"

definition processFile ::
  "'w env \<Rightarrow> string \<Rightarrow> string \<Rightarrow> FileLink \<Rightarrow> 'w state \<Rightarrow> (js_error + jsvalue) \<times> 'w state" where
  "processFile env q page_content fileInfo s =
     (case extractContent env fileInfo s of
        (Inl err, s1) \<Rightarrow> (Inl err, s1)
      | (Inr processedData, s1) \<Rightarrow>
          let prompt = analysisPrompt q (text' fileInfo) (render_processed env processedData) page_content
          in case call (Called_askClaude prompt) (askClaude env prompt) s1 of
               (Inl err, s2) \<Rightarrow> (Inl err, s2)
             | (Inr answer, s2) \<Rightarrow> (parseAnswer (JSON_parse env) answer, s2))"

text \<open>
  The loop over the files: the first file whose \<open>try\<close> body returns ends the function
  with that answer (\<open>Some\<close>); a body that throws is caught and the loop goes on; \<open>None\<close>
  when the loop runs out.
\<close>

fun processFiles ::
  "'w env \<Rightarrow> string \<Rightarrow> string \<Rightarrow> FileLink list \<Rightarrow> 'w state \<Rightarrow> jsvalue option \<times> 'w state" where
  "processFiles env q page_content [] s = (None, s)"
| "processFiles env q page_content (fileInfo # later) s =
     (case processFile env q page_content fileInfo s of
        (Inr answer, s1) \<Rightarrow> (Some answer, s1)
      | (Inl fileError, s1) \<Rightarrow> processFiles env q page_content later s1)"

definition solveQuizQuestion ::
  "'w env \<Rightarrow> QuizPage \<Rightarrow> int \<Rightarrow> 'w state \<Rightarrow> (js_error + jsvalue) \<times> 'w state" where
  "solveQuizQuestion env quizData startTime s =
     (case (if length (files quizData) > 0
            then processFiles env (question quizData) (content quizData) (files quizData) s
            else (None, s)) of
        (Some answer, s1) \<Rightarrow> (Inr answer, s1)
      | (None, s1) \<Rightarrow>
          let prompt = directPrompt (question quizData) (content quizData)
          in case call (Called_askClaude prompt) (askClaude env prompt) s1 of
               (Inl err, s2) \<Rightarrow> (Inl err, s2)
             | (Inr answer, s2) \<Rightarrow> (parseAnswer (JSON_parse env) answer, s2))"

text \<open>
  \<open>solveSingleQuiz\<close>: the body of its \<open>try\<close>, and the function with its \<open>catch\<close>, which
  turns a thrown error into the result \<open>{success: false, error: error.message}\<close>.
\<close>

definition solveSingleQuiz_try ::
  "'w env \<Rightarrow> string \<Rightarrow> string \<Rightarrow> jsvalue \<Rightarrow> int \<Rightarrow> 'w state \<Rightarrow> (js_error + quiz_result) \<times> 'w state" where
  "solveSingleQuiz_try env email secret quizUrl startTime s =
     (case call (Called_extractQuizFromPage quizUrl) (extractQuizFromPage env quizUrl) s of
        (Inl err, s1) \<Rightarrow> (Inl err, s1)
      | (Inr quizData, s1) \<Rightarrow>
          (case solveQuizQuestion env quizData startTime s1 of
             (Inl err, s2) \<Rightarrow> (Inl err, s2)
           | (Inr answer, s2) \<Rightarrow>
               (case submitAnswer env email secret quizUrl answer (submitUrl quizData) s2 of
                  (Inl err, s3) \<Rightarrow> (Inl err, s3)
                | (Inr submitResult, s3) \<Rightarrow>
                    (case get_prop submitResult ''correct'' of
                       Inl err \<Rightarrow> (Inl err, s3)
                     | Inr c \<Rightarrow>
                         (case get_prop submitResult ''url'' of
                            Inl err \<Rightarrow> (Inl err, s3)
                          | Inr u \<Rightarrow>
                              (case get_prop submitResult ''reason'' of
                                 Inl err \<Rightarrow> (Inl err, s3)
                               | Inr r \<Rightarrow> (Inr \<lparr>success = c, nextUrl = u, error = r\<rparr>, s3)))))))"

definition solveSingleQuiz ::
  "'w env \<Rightarrow> string \<Rightarrow> string \<Rightarrow> jsvalue \<Rightarrow> int \<Rightarrow> 'w state \<Rightarrow> (js_error + quiz_result) \<times> 'w state" where
  "solveSingleQuiz env email secret quizUrl startTime s =
     (case solveSingleQuiz_try env email secret quizUrl startTime s of
        (Inr result, s1) \<Rightarrow> (Inr result, s1)
      | (Inl err, s1) \<Rightarrow>
          (Inr \<lparr>success = JBool False, nextUrl = JUndefined, error = JStr (message err)\<rparr>, s1))"

section \<open>Quiz-Chain Orchestrator: \<open>solveMasterQuiz\<close>\<close>

definition TIMEOUT_MS :: int where
  "TIMEOUT_MS = 170000"

text \<open>
  The variables of the loop, with the list of URLs the solver has been invoked with so
  far (an observation only, appended to and never read), and the way the loop was left:
  its condition was false, or one of the four \<open>break\<close>s.
\<close>

record loop_vars =
  currentUrl :: jsvalue
  attemptCount :: nat
  invoked :: "jsvalue list"

datatype exit_reason =
    ConditionFalse
  | TimeRunningOut
  | ChainCompleted
  | NoNextUrl
  | SolverThrew js_error

text \<open>
  The \<open>while\<close> loop, for any clock, any solver and any attempt cap; \<open>solveMasterQuiz\<close>
  is the loop with the clock of the world, \<open>solveSingleQuiz\<close> and the cap 50.
\<close>

function solveMasterQuiz_loop ::
  "('st \<Rightarrow> int) \<Rightarrow> (string \<Rightarrow> string \<Rightarrow> jsvalue \<Rightarrow> int \<Rightarrow> 'st \<Rightarrow> (js_error + quiz_result) \<times> 'st)
     \<Rightarrow> nat \<Rightarrow> string \<Rightarrow> string \<Rightarrow> int \<Rightarrow> loop_vars \<Rightarrow> 'st \<Rightarrow> (loop_vars \<times> exit_reason) \<times> 'st" where
  "solveMasterQuiz_loop now solver maxAttempts email secret startTime v s =
     (if truthy (currentUrl v) \<and> attemptCount v < maxAttempts then
        let v1 = v\<lparr>attemptCount := attemptCount v + 1\<rparr>;
            elapsed = now s - startTime;
            remaining = TIMEOUT_MS - elapsed
        in if remaining < 10000 then ((v1, TimeRunningOut), s)
           else
             (case solver email secret (currentUrl v1) startTime s of
                (Inr result, s1) \<Rightarrow>
                  let v2 = v1\<lparr>invoked := invoked v1 @ [currentUrl v1]\<rparr> in
                  if truthy (success result) then
                    if truthy (nextUrl result)
                    then solveMasterQuiz_loop now solver maxAttempts email secret startTime
                           (v2\<lparr>currentUrl := nextUrl result\<rparr>) s1
                    else ((v2, ChainCompleted), s1)
                  else
                    if truthy (nextUrl result)
                    then solveMasterQuiz_loop now solver maxAttempts email secret startTime
                           (v2\<lparr>currentUrl := nextUrl result\<rparr>) s1
                    else ((v2, NoNextUrl), s1)
              | (Inl err, s1) \<Rightarrow>
                  ((v1\<lparr>invoked := invoked v1 @ [currentUrl v1]\<rparr>, SolverThrew err), s1))
      else ((v, ConditionFalse), s))"
  by pat_completeness auto
termination
  by (relation "measure (\<lambda>(now, solver, maxAttempts, email, secret, startTime, v, s).
        maxAttempts - attemptCount v)") auto

definition solveMasterQuiz ::
  "'w env \<Rightarrow> string \<Rightarrow> string \<Rightarrow> jsvalue \<Rightarrow> int \<Rightarrow> 'w state \<Rightarrow> (loop_vars \<times> exit_reason) \<times> 'w state" where
  "solveMasterQuiz env email secret initialUrl startTime s =
     solveMasterQuiz_loop (\<lambda>st. Date_now env (world st)) (solveSingleQuiz env) 50 email secret startTime
       \<lparr>currentUrl = initialUrl, attemptCount = 0, invoked = []\<rparr> s"

section \<open>Observations on a run\<close>

text \<open>
  The prompts sent to the LLM client, in order; whether \<open>solveQuizQuestion\<close> sent the
  context-only prompt; whether every iteration of the loop over the files threw; and
  whether, as the specification words it, every file failed to yield content.
\<close>

fun llm_queries :: "event list \<Rightarrow> string list" where
  "llm_queries [] = []"
| "llm_queries (Called_askClaude p # es) = p # llm_queries es"
| "llm_queries (ev # es) = llm_queries es"

definition direct_prompt_used :: "'w env \<Rightarrow> QuizPage \<Rightarrow> int \<Rightarrow> 'w state \<Rightarrow> bool" where
  "direct_prompt_used env qd t s =
     (Called_askClaude (directPrompt (question qd) (content qd))
        \<in> set (drop (length (calls s)) (calls (snd (solveQuizQuestion env qd t s)))))"

definition every_iteration_threw :: "'w env \<Rightarrow> QuizPage \<Rightarrow> 'w state \<Rightarrow> bool" where
  "every_iteration_threw env qd s =
     list_all (\<lambda>i. isl (fst (processFile env (question qd) (content qd) (files qd ! i)
                          (snd (processFiles env (question qd) (content qd) (take i (files qd)) s)))))
       [0..<length (files qd)]"

definition every_extraction_failed :: "'w env \<Rightarrow> QuizPage \<Rightarrow> 'w state \<Rightarrow> bool" where
  "every_extraction_failed env qd s =
     list_all (\<lambda>i. isl (fst (extractContent env (files qd ! i)
                          (snd (processFiles env (question qd) (content qd) (take i (files qd)) s)))))
       [0..<length (files qd)]"

text \<open>The calls an iteration over a file can add: a download, an extractor, a file-grounded prompt.\<close>

fun file_step_event :: "string \<Rightarrow> string \<Rightarrow> event \<Rightarrow> bool" where
  "file_step_event q c (Called_downloadFile u) = True"
| "file_step_event q c (Called_extractor n) = True"
| "file_step_event q c (Called_askClaude p) = (\<exists>t r. p = analysisPrompt q t r c)"
| "file_step_event q c ev = False"

section \<open>Test doubles\<close>

text \<open>
  Collaborators for concrete runs. The world is a counter of LLM queries. The page holds
  the given file links; a download gives the bytes \<open>1,2\<close>; the extractor, the LLM client
  and the HTTP client are given; \<open>JSON.parse\<close> rejects every text.
\<close>

definition stub_page :: "FileLink list \<Rightarrow> QuizPage" where
  "stub_page fs = \<lparr>question = ''What is 2+2?'', content = ''page text'',
                    submitUrl = Some ''https://quiz.example/submit'', files = fs\<rparr>"

definition stub_env ::
  "FileLink list \<Rightarrow> (buffer \<Rightarrow> nat \<Rightarrow> (js_error + jsvalue) \<times> nat)
     \<Rightarrow> (string \<Rightarrow> nat \<Rightarrow> (js_error + string) \<times> nat)
     \<Rightarrow> (string option \<Rightarrow> jsvalue \<Rightarrow> nat \<Rightarrow> (js_error + http_response) \<times> nat) \<Rightarrow> nat env" where
  "stub_env fs extractor llm post =
     \<lparr>extractQuizFromPage = (\<lambda>u w. (Inr (stub_page fs), w)),
      downloadFile = (\<lambda>u w. (Inr ''1,2'', w)),
      processCSV = extractor, processPDF = extractor, processImage = extractor,
      processAudio = extractor, processVideo = extractor, processExcel = extractor,
      askClaude = llm,
      axios_post = post,
      Date_now = (\<lambda>w. 0),
      JSON_parse = (\<lambda>str. Inl (Error ''SyntaxError'' None)),
      JSON_stringify = (\<lambda>v. ''{}''),
      String_of = (\<lambda>v. ''''),
      Buffer_toString = (\<lambda>b. b)\<rparr>"


definition good_extractor :: "buffer \<Rightarrow> nat \<Rightarrow> (js_error + jsvalue) \<times> nat" where
  "good_extractor b w = (Inr (JStr ''rows''), w)"

definition bad_extractor :: "buffer \<Rightarrow> nat \<Rightarrow> (js_error + jsvalue) \<times> nat" where
  "bad_extractor b w = (Inl (Error ''malformed payload'' None), w)"

definition good_llm :: "string \<Rightarrow> nat \<Rightarrow> (js_error + string) \<times> nat" where
  "good_llm p w = (Inr ''4'', w + 1)"

definition flaky_llm :: "string \<Rightarrow> nat \<Rightarrow> (js_error + string) \<times> nat" where
  "flaky_llm p w = (if w = 0 then Inl (Error ''Claude API error'' None) else Inr ''4'', w + 1)"

definition post_ok :: "string option \<Rightarrow> jsvalue \<Rightarrow> nat \<Rightarrow> (js_error + http_response) \<times> nat" where
  "post_ok u p w = (Inr \<lparr>status = 200, data = JObj [(''correct'', JBool True), (''url'', JNull)]\<rparr>, w)"

definition file_a :: FileLink where
  "file_a = \<lparr>url = ''http://x/a.txt'', text' = ''a''\<rparr>"

definition file_b :: FileLink where
  "file_b = \<lparr>url = ''http://x/b.txt'', text' = ''b''\<rparr>"

definition file_c :: FileLink where
  "file_c = \<lparr>url = ''http://x/c.csv'', text' = ''c''\<rparr>"

definition s0 :: "nat state" where
  "s0 = \<lparr>world = 0, calls = []\<rparr>"

text \<open>
  A grading server that answers with status 400 and a body, and one that cannot be
  reached.
\<close>

definition post_rejected :: "string option \<Rightarrow> jsvalue \<Rightarrow> nat \<Rightarrow> (js_error + http_response) \<times> nat" where
  "post_rejected u p w =
     (Inl (Error ''Request failed with status code 400''
            (Some \<lparr>status = 400,
                   data = JObj [(''correct'', JBool False), (''url'', JStr ''https://next''),
                                (''reason'', JStr ''wrong answer'')]\<rparr>)), w)"

definition post_unreachable :: "string option \<Rightarrow> jsvalue \<Rightarrow> nat \<Rightarrow> (js_error + http_response) \<times> nat" where
  "post_unreachable u p w = (Inl (Error ''timeout of 30000ms exceeded'' None), w)"

text \<open>
  Solvers for the orchestrator's loop alone; the world counts their invocations. The
  first always succeeds and names a next URL; the second always fails, and names a next
  URL on its first invocation only.
\<close>

definition always_next_solver ::
  "string \<Rightarrow> string \<Rightarrow> jsvalue \<Rightarrow> int \<Rightarrow> nat \<Rightarrow> (js_error + quiz_result) \<times> nat" where
  "always_next_solver email secret quizUrl startTime w =
     (Inr \<lparr>success = JBool True, nextUrl = JStr ''https://quiz.example/next'', error = JUndefined\<rparr>,
      w + 1)"


section \<open>Properties of the string methods\<close>

lemma includes_iff: "includes_js s p \<longleftrightarrow> (\<exists>ps ss. s = ps @ p @ ss)"
proof (induction s)
  case Nil
  then show ?case by auto
next
  case (Cons c s)
  show ?case
  proof
    assume "includes_js (c # s) p"
    then consider "prefix p (c # s)" | "includes_js s p" by auto
    then show "\<exists>ps ss. c # s = ps @ p @ ss"
    proof cases
      case 1
      then obtain ss where "c # s = p @ ss" by (auto simp: prefix_def)
      then have "c # s = [] @ p @ ss" by simp
      then show ?thesis by blast
    next
      case 2
      with Cons.IH obtain ps ss where "s = ps @ p @ ss" by blast
      then have "c # s = (c # ps) @ p @ ss" by simp
      then show ?thesis by blast
    qed
  next
    assume "\<exists>ps ss. c # s = ps @ p @ ss"
    then obtain ps ss where eq: "c # s = ps @ p @ ss" by blast
    show "includes_js (c # s) p"
    proof (cases ps)
      case Nil
      with eq have "prefix p (c # s)" by (simp add: prefix_def)
      then show ?thesis by simp
    next
      case (Cons a ps')
      with eq have "s = ps' @ p @ ss" by simp
      with Cons.IH have "includes_js s p" by blast
      then show ?thesis by simp
    qed
  qed
qed











section \<open>File Type Classifier: the table and the examples\<close>

text \<open>
  Claim C2, as the code has it. \<open>detectFileType\<close> is a function of the lower-cased text
  \<open>url + ' ' + fileName\<close> alone, and it is the first-match lookup in the ordered pattern
  table, with \<open>text\<close> when no pattern occurs. Every pattern is a dotted extension, so
  \<open>http://x/report.CSV\<close> is classified \<open>csv\<close>, while the label \<open>Download PDF here\<close>
  holds no \<open>.pdf\<close> and \<open>http://x/file\<close> with that label is classified \<open>text\<close>; the
  label \<open>Download report.PDF here\<close> gives \<open>pdf\<close>.
\<close>

theorem detectFileType_first_match:
  "detectFileType u fileName = first_match pattern_table (toLowerCase (u @ '' '' @ fileName))
   \<and> detectFileType ''http://x/report.CSV'' '''' = ''csv''
   \<and> detectFileType ''http://x/file'' ''Download PDF here'' = ''text''
   \<and> detectFileType ''http://x/file'' ''Download report.PDF here'' = ''pdf''"
proof -
  have table: "detectFileType u fileName
      = first_match pattern_table (toLowerCase (u @ '' '' @ fileName))"
    by (simp add: detectFileType_def first_match_def pattern_table_def Let_def)
  have csv: "detectFileType ''http://x/report.CSV'' '''' = ''csv''"
    by code_simp
  have plain: "detectFileType ''http://x/file'' ''Download PDF here'' = ''text''"
    by code_simp
  have pdf: "detectFileType ''http://x/file'' ''Download report.PDF here'' = ''pdf''"
    by code_simp
  from table csv plain pdf show ?thesis by blast
qed

text \<open>
  Claim C2 as stated fails on its second example: the keyword \<open>PDF\<close> in the label, with
  no dot before it, does not make the file a \<open>pdf\<close>.
\<close>

theorem detectFileType_keyword_counterexample:
  "detectFileType ''http://x/file'' ''Download PDF here'' \<noteq> ''pdf''"
  by code_simp

section \<open>Answer Normalizer: precedence and the Number check\<close>

text \<open>
  Claim C1. For every raw completion and every behaviour of \<open>JSON.parse\<close>,
  \<open>parseAnswer\<close> returns (it never throws) the value of the variant that the ordered
  checks JSON, Boolean, Number, DataURI, String select on the trimmed text, the first
  match winning. A bracketed text on which \<open>JSON.parse\<close> throws is never a JSONValue, and
  \<open>{not json\<close> ends as the String variant.
\<close>

theorem parseAnswer_precedence:
  "parseAnswer P raw = Inr (js_of (normalize_spec P raw))
   \<and> (P (trim raw) = Inl e \<longrightarrow> normalize_spec P raw \<noteq> JSONValue v)
   \<and> normalize_spec P ''{not json'' = StringV ''{not json''
   \<and> parseAnswer P ''{not json'' = Inr (JStr ''{not json'')"
proof -
  have refines: "parseAnswer P raw = Inr (js_of (normalize_spec P raw))"
    by (simp add: parseAnswer_def normalize_spec_def check_json_def check_boolean_def
        check_number_def check_datauri_def bounded_def isNaN_def Let_def split: sum.splits)
  have unparsed: "P (trim raw) = Inl e \<longrightarrow> normalize_spec P raw \<noteq> JSONValue v"
    by (simp add: normalize_spec_def check_json_def check_boolean_def
        check_number_def check_datauri_def Let_def)
  have spec_example: "normalize_spec P ''{not json'' = StringV ''{not json''"
    by code_simp
  have code_example: "parseAnswer P ''{not json'' = Inr (JStr ''{not json'')"
    by code_simp
  from refines unparsed spec_example code_example show ?thesis by blast
qed

text \<open>
  The theorem at a bracketed text that does not parse, \<open>{not json}\<close>, with a
  \<open>JSON.parse\<close> that throws: the result is the String variant.
\<close>

theorem parseAnswer_precedence_witness:
  "(\<lambda>s. Inl (Error ''SyntaxError'' None)) (trim ''{not json}'') = Inl (Error ''SyntaxError'' None)
   \<and> bounded (trim ''{not json}'')
   \<and> normalize_spec (\<lambda>s. Inl (Error ''SyntaxError'' None)) ''{not json}'' \<noteq> JSONValue JNull
   \<and> parseAnswer (\<lambda>s. Inl (Error ''SyntaxError'' None)) ''{not json}'' = Inr (JStr ''{not json}'')"
proof -
  have b: "bounded (trim ''{not json}'')" by code_simp
  have r: "parseAnswer (\<lambda>s. Inl (Error ''SyntaxError'' None)) ''{not json}'' = Inr (JStr ''{not json}'')"
    by code_simp
  from b r
    parseAnswer_precedence [of "\<lambda>s. Inl (Error ''SyntaxError'' None)" "''{not json}''"
      "Error ''SyntaxError'' None" JNull]
  show ?thesis by simp
qed






section \<open>The loop over the files\<close>

lemma llm_queries_append: "llm_queries (xs @ ys) = llm_queries xs @ llm_queries ys"
  by (induction xs rule: llm_queries.induct) simp_all

lemma unlines_head: "ls \<noteq> [] \<Longrightarrow> \<exists>x. unlines (l # ls) = l @ x"
  by (cases ls) (simp_all add: unlines_def)

lemma prompts_differ: "analysisPrompt q t r c \<noteq> directPrompt q' c'"
proof -
  have "\<exists>x. analysisPrompt q t r c
      = ''You are solving a quiz question. Here is the question:'' @ x"
    unfolding analysisPrompt_def by (rule unlines_head) simp
  then obtain x where a: "analysisPrompt q t r c
      = ''You are solving a quiz question. Here is the question:'' @ x" ..
  have "\<exists>y. directPrompt q' c'
      = ''You are solving a quiz question. Here is the complete context:'' @ y"
    unfolding directPrompt_def by (rule unlines_head) simp
  then obtain y where d: "directPrompt q' c'
      = ''You are solving a quiz question. Here is the complete context:'' @ y" ..
  have "analysisPrompt q t r c ! 45 = CHR ''q''" unfolding a by (simp add: nth_append)
  moreover have "directPrompt q' c' ! 45 = CHR ''c''" unfolding d by (simp add: nth_append)
  ultimately show ?thesis by auto
qed

lemma call_eq:
  "call ev f s = (r, s') \<longleftrightarrow> (\<exists>w. f (world s) = (r, w) \<and> s' = \<lparr>world = w, calls = calls s @ [ev]\<rparr>)"
  by (auto simp: call_def split: prod.splits)

lemma extractContent_calls:
  "\<exists>es. calls (snd (extractContent env f s)) = calls s @ es
        \<and> (\<forall>ev\<in>set es. file_step_event q c ev) \<and> llm_queries es = []"
  by (auto simp: extractContent_def call_def Let_def split: prod.splits sum.splits)

lemma processFile_calls:
  "\<exists>es. calls (snd (processFile env q c f s)) = calls s @ es \<and> (\<forall>ev\<in>set es. file_step_event q c ev)"
proof -
  obtain r1 s1 where ex: "extractContent env f s = (r1, s1)" by (cases "extractContent env f s")
  from extractContent_calls[of env f s q c] ex obtain es where
    es: "calls s1 = calls s @ es" "\<forall>ev\<in>set es. file_step_event q c ev" by auto
  show ?thesis
  proof (cases r1)
    case (Inl e)
    with ex es show ?thesis by (auto simp: processFile_def)
  next
    case (Inr pd)
    let ?p = "analysisPrompt q (text' f) (render_processed env pd) c"
    have "calls (snd (processFile env q c f s)) = calls s1 @ [Called_askClaude ?p]"
      using ex Inr by (auto simp: processFile_def Let_def call_def split: prod.splits sum.splits)
    then have "calls (snd (processFile env q c f s)) = calls s @ (es @ [Called_askClaude ?p])"
      using es by simp
    moreover have "\<forall>ev\<in>set (es @ [Called_askClaude ?p]). file_step_event q c ev"
      using es by auto
    ultimately show ?thesis by blast
  qed
qed

lemma processFiles_calls:
  "\<exists>es. calls (snd (processFiles env q c fs s)) = calls s @ es \<and> (\<forall>ev\<in>set es. file_step_event q c ev)"
proof (induction fs arbitrary: s)
  case Nil
  show ?case by simp
next
  case (Cons f fs)
  obtain r1 s1 where pf: "processFile env q c f s = (r1, s1)" by (cases "processFile env q c f s")
  from processFile_calls[of env q c f s] pf obtain es where
    es: "calls s1 = calls s @ es" "\<forall>ev\<in>set es. file_step_event q c ev" by auto
  show ?case
  proof (cases r1)
    case (Inr a)
    with pf es show ?thesis by auto
  next
    case (Inl e)
    from Cons.IH[of s1] obtain es' where
      es': "calls (snd (processFiles env q c fs s1)) = calls s1 @ es'"
           "\<forall>ev\<in>set es'. file_step_event q c ev" by blast
    have "calls (snd (processFiles env q c (f # fs) s)) = calls s @ (es @ es')"
      using pf Inl es es' by simp
    moreover have "\<forall>ev\<in>set (es @ es'). file_step_event q c ev" using es es' by auto
    ultimately show ?thesis by blast
  qed
qed

lemma processFiles_skip:
  "processFile env q c f s = (Inl e, s1) \<Longrightarrow> processFiles env q c (f # fs) s = processFiles env q c fs s1"
  by simp

lemma processFiles_append:
  "fst (processFiles env q c pre s) = None \<Longrightarrow>
   processFiles env q c (pre @ rest) s = processFiles env q c rest (snd (processFiles env q c pre s))"
proof (induction pre arbitrary: s)
  case Nil
  show ?case by simp
next
  case (Cons f pre)
  obtain r1 s1 where pf: "processFile env q c f s = (r1, s1)" by (cases "processFile env q c f s")
  show ?case
  proof (cases r1)
    case (Inr a)
    with pf Cons.prems show ?thesis by simp
  next
    case (Inl e)
    with pf Cons.prems have "fst (processFiles env q c pre s1) = None" by simp
    from Cons.IH[OF this] pf Inl show ?thesis by simp
  qed
qed

lemma processFiles_None_iff:
  "fst (processFiles env q c fs s) = None \<longleftrightarrow>
   (\<forall>i<length fs. isl (fst (processFile env q c (fs ! i) (snd (processFiles env q c (take i fs) s)))))"
proof (induction fs arbitrary: s)
  case Nil
  show ?case by simp
next
  case (Cons f fs)
  obtain r1 s1 where pf: "processFile env q c f s = (r1, s1)" by (cases "processFile env q c f s")
  have split: "\<And>P. (\<forall>i<Suc (length fs). P i) \<longleftrightarrow> (P 0 \<and> (\<forall>i<length fs. P (Suc i)))"
    by (auto simp: less_Suc_eq_0_disj)
  show ?case
  proof (cases r1)
    case (Inr a)
    with pf have "\<not> isl (fst (processFile env q c ((f # fs) ! 0)
                     (snd (processFiles env q c (take 0 (f # fs)) s))))" by simp
    then have "\<not> (\<forall>i<length (f # fs). isl (fst (processFile env q c ((f # fs) ! i)
                     (snd (processFiles env q c (take i (f # fs)) s)))))" by fastforce
    moreover from pf Inr have "fst (processFiles env q c (f # fs) s) \<noteq> None" by simp
    ultimately show ?thesis by blast
  next
    case (Inl e)
    with pf have step: "\<And>i. processFiles env q c (take (Suc i) (f # fs)) s
                          = processFiles env q c (take i fs) s1" by simp
    from pf Inl have first: "isl (fst (processFile env q c ((f # fs) ! 0)
                     (snd (processFiles env q c (take 0 (f # fs)) s))))" by simp
    from pf Inl have "fst (processFiles env q c (f # fs) s) = fst (processFiles env q c fs s1)"
      by simp
    also have "\<dots> = None \<longleftrightarrow> (\<forall>i<length fs. isl (fst (processFile env q c (fs ! i)
                     (snd (processFiles env q c (take i fs) s1)))))"
      by (rule Cons.IH)
    also have "\<dots> \<longleftrightarrow> (\<forall>i<length fs. isl (fst (processFile env q c ((f # fs) ! Suc i)
                     (snd (processFiles env q c (take (Suc i) (f # fs)) s)))))"
      unfolding step by simp
    also have "\<dots> \<longleftrightarrow> (\<forall>i<length (f # fs). isl (fst (processFile env q c ((f # fs) ! i)
                     (snd (processFiles env q c (take i (f # fs)) s)))))"
      using first unfolding length_Cons split by blast
    finally show ?thesis .
  qed
qed

lemma files_guard:
  "(if length fs > 0 then processFiles env q c fs s else (None, s)) = processFiles env q c fs s"
  by (cases fs) simp_all

lemma solveQuizQuestion_cases:
  "solveQuizQuestion env qd t s =
     (case processFiles env (question qd) (content qd) (files qd) s of
        (Some answer, s1) \<Rightarrow> (Inr answer, s1)
      | (None, s1) \<Rightarrow>
          (case call (Called_askClaude (directPrompt (question qd) (content qd)))
                  (askClaude env (directPrompt (question qd) (content qd))) s1 of
             (Inl err, s2) \<Rightarrow> (Inl err, s2)
           | (Inr answer, s2) \<Rightarrow> (parseAnswer (JSON_parse env) answer, s2)))"
  unfolding solveQuizQuestion_def files_guard Let_def by (rule refl)

lemma direct_prompt_used_iff:
  "direct_prompt_used env qd t s \<longleftrightarrow> fst (processFiles env (question qd) (content qd) (files qd) s) = None"
proof -
  let ?q = "question qd" and ?c = "content qd"
  obtain r1 s1 where pf: "processFiles env ?q ?c (files qd) s = (r1, s1)"
    by (cases "processFiles env ?q ?c (files qd) s")
  from processFiles_calls[of env ?q ?c "files qd" s] pf obtain es where
    es: "calls s1 = calls s @ es" "\<forall>ev\<in>set es. file_step_event ?q ?c ev" by auto
  have notin: "Called_askClaude (directPrompt ?q ?c) \<notin> set es"
  proof
    assume "Called_askClaude (directPrompt ?q ?c) \<in> set es"
    with es(2) have "file_step_event ?q ?c (Called_askClaude (directPrompt ?q ?c))" by blast
    then show False using prompts_differ by (metis file_step_event.simps(3))
  qed
  show ?thesis
  proof (cases r1)
    case None
    have "calls (snd (solveQuizQuestion env qd t s))
            = calls s @ es @ [Called_askClaude (directPrompt ?q ?c)]"
      using pf None es
      by (auto simp: solveQuizQuestion_cases call_def split: prod.splits sum.splits)
    then show ?thesis using pf None by (simp add: direct_prompt_used_def)
  next
    case (Some a)
    have "calls (snd (solveQuizQuestion env qd t s)) = calls s @ es"
      using pf Some es by (simp add: solveQuizQuestion_cases)
    then show ?thesis using pf Some notin by (simp add: direct_prompt_used_def)
  qed
qed

lemma every_iteration_threw_iff:
  "every_iteration_threw env qd s \<longleftrightarrow> fst (processFiles env (question qd) (content qd) (files qd) s) = None"
  by (auto simp: every_iteration_threw_def processFiles_None_iff list_all_iff)

lemma processFile_extract_fail:
  "extractContent env f s = (Inl e, s1) \<Longrightarrow> processFile env q c f s = (Inl e, s1)"
  by (simp add: processFile_def)

lemma processFile_success:
  assumes "processFile env q c f s = (Inr a, s')"
  shows "\<exists>pd s1 raw. extractContent env f s = (Inr pd, s1)
          \<and> askClaude env (analysisPrompt q (text' f) (render_processed env pd) c) (world s1)
              = (Inr raw, world s')
          \<and> parseAnswer (JSON_parse env) raw = Inr a
          \<and> calls s' = calls s1 @ [Called_askClaude (analysisPrompt q (text' f) (render_processed env pd) c)]"
  using assms
  by (auto simp: processFile_def Let_def call_def split: prod.splits sum.splits)

lemma extractContent_llm_queries:
  "llm_queries (calls (snd (extractContent env f s))) = llm_queries (calls s)"
  using extractContent_calls[of env f s "[]" "[]"] by (auto simp: llm_queries_append)

lemma processFile_llm_throws:
  assumes ex: "fst (extractContent env g t) = Inr pd"
    and llm: "fst (askClaude env (analysisPrompt q (text' g) (render_processed env pd) c)
                (world (snd (extractContent env g t)))) = Inl e"
  shows "fst (processFile env q c g t) = Inl e"
proof -
  obtain s1 where e1: "extractContent env g t = (Inr pd, s1)"
    using ex by (cases "extractContent env g t") simp
  obtain w where l1: "askClaude env (analysisPrompt q (text' g) (render_processed env pd) c) (world s1)
                       = (Inl e, w)"
    using llm e1
    by (cases "askClaude env (analysisPrompt q (text' g) (render_processed env pd) c) (world s1)") simp
  from e1 l1 show ?thesis by (simp add: processFile_def call_def Let_def)
qed

lemma processFile_throws_iff:
  "isl (fst (processFile env q c f s)) \<longleftrightarrow>
     isl (fst (extractContent env f s))
     \<or> (\<exists>pd. fst (extractContent env f s) = Inr pd
           \<and> isl (fst (askClaude env (analysisPrompt q (text' f) (render_processed env pd) c)
                         (world (snd (extractContent env f s))))))"
proof -
  obtain r1 s1 where ex: "extractContent env f s = (r1, s1)" by (cases "extractContent env f s")
  show ?thesis
  proof (cases r1)
    case (Inl e)
    with ex show ?thesis by (simp add: processFile_def)
  next
    case (Inr pd)
    let ?p = "analysisPrompt q (text' f) (render_processed env pd) c"
    obtain r2 w where llm: "askClaude env ?p (world s1) = (r2, w)"
      by (cases "askClaude env ?p (world s1)")
    have norm: "\<And>raw. \<not> isl (parseAnswer (JSON_parse env) raw)"
      by (simp add: parseAnswer_def Let_def split: option.splits sum.splits)
    from ex Inr llm norm show ?thesis
      by (cases r2) (simp_all add: processFile_def call_def Let_def)
  qed
qed

section \<open>The steps of the orchestrator's loop\<close>

declare solveMasterQuiz_loop.simps [simp del]

lemma loop_condition_false:
  "\<not> (truthy (currentUrl v) \<and> attemptCount v < maxAttempts) \<Longrightarrow>
   solveMasterQuiz_loop now solver maxAttempts email secret startTime v s = ((v, ConditionFalse), s)"
  by (subst solveMasterQuiz_loop.simps) auto

lemma loop_time_running_out:
  "truthy (currentUrl v) \<Longrightarrow> attemptCount v < maxAttempts \<Longrightarrow>
   TIMEOUT_MS - (now s - startTime) < 10000 \<Longrightarrow>
   solveMasterQuiz_loop now solver maxAttempts email secret startTime v s
     = ((v\<lparr>attemptCount := attemptCount v + 1\<rparr>, TimeRunningOut), s)"
  by (subst solveMasterQuiz_loop.simps) (simp add: Let_def)










lemma solveSingleQuiz_on_throw:
  "solveSingleQuiz_try env email secret u t s = (Inl e, s') \<Longrightarrow>
   solveSingleQuiz env email secret u t s
     = (Inr \<lparr>success = JBool False, nextUrl = JUndefined, error = JStr (message e)\<rparr>, s')"
  by (simp add: solveSingleQuiz_def)

lemma solveSingleQuiz_on_return:
  "solveSingleQuiz_try env email secret u t s = (Inr r, s') \<Longrightarrow>
   solveSingleQuiz env email secret u t s = (Inr r, s')"
  by (simp add: solveSingleQuiz_def)




section \<open>Quiz-Chain Orchestrator: the attempt cap, the time check, skip-on-failure\<close>



text \<open>
  Claim C6. In every iteration, before the solver is invoked, the remaining budget
  \<open>TIMEOUT_MS - (now - startTime)\<close> is compared with the margin of 10000 ms; when it is
  below, the loop ends there by its \<open>break\<close>: it returns, the state is untouched and the
  list of invocations is unchanged, so no attempt was started. When the budget is already
  below the margin as \<open>solveMasterQuiz\<close> starts, the solver is never invoked and no
  collaborator is called.
\<close>

theorem orchestrator_time_check:
  "(truthy (currentUrl v) \<and> attemptCount v < maxAttempts
      \<and> TIMEOUT_MS - (now s - startTime) < 10000 \<longrightarrow>
      solveMasterQuiz_loop now solver maxAttempts email secret startTime v s
        = ((v\<lparr>attemptCount := attemptCount v + 1\<rparr>, TimeRunningOut), s))
   \<and> (TIMEOUT_MS - (Date_now env (world st) - startTime) < 10000 \<longrightarrow>
        invoked (fst (fst (solveMasterQuiz env email secret initialUrl startTime st))) = []
        \<and> snd (solveMasterQuiz env email secret initialUrl startTime st) = st
        \<and> (snd (fst (solveMasterQuiz env email secret initialUrl startTime st)) = TimeRunningOut
            \<or> snd (fst (solveMasterQuiz env email secret initialUrl startTime st)) = ConditionFalse))"
proof (intro conjI impI)
  assume "truthy (currentUrl v) \<and> attemptCount v < maxAttempts
      \<and> TIMEOUT_MS - (now s - startTime) < 10000"
  then show "solveMasterQuiz_loop now solver maxAttempts email secret startTime v s
        = ((v\<lparr>attemptCount := attemptCount v + 1\<rparr>, TimeRunningOut), s)"
    by (simp add: loop_time_running_out)
next
  assume late: "TIMEOUT_MS - (Date_now env (world st) - startTime) < 10000"
  let ?v0 = "\<lparr>currentUrl = initialUrl, attemptCount = 0, invoked = []\<rparr>"
  let ?run = "solveMasterQuiz env email secret initialUrl startTime st"
  have "?run = ((?v0, ConditionFalse), st) \<or> ?run = ((?v0\<lparr>attemptCount := 1\<rparr>, TimeRunningOut), st)"
  proof (cases "truthy (currentUrl ?v0) \<and> attemptCount ?v0 < 50")
    case False
    then show ?thesis unfolding solveMasterQuiz_def by (simp add: loop_condition_false)
  next
    case True
    with late show ?thesis unfolding solveMasterQuiz_def by (simp add: loop_time_running_out)
  qed
  then show "invoked (fst (fst ?run)) = []" and "snd ?run = st"
    and "snd (fst ?run) = TimeRunningOut \<or> snd (fst ?run) = ConditionFalse"
    by auto
qed

text \<open>
  The theorem on a chain started 200 seconds before the clock's reading: the deadline
  has passed, \<open>solveMasterQuiz\<close> returns with no invocation and no call. In a fifth
  iteration, 165 seconds after the start, 5 seconds remain and the loop ends before the
  solver is invoked.
\<close>

theorem orchestrator_time_check_witness:
  "TIMEOUT_MS - (Date_now (stub_env [] good_extractor good_llm post_ok) (world s0) - (- 200000)) < 10000
   \<and> invoked (fst (fst (solveMasterQuiz (stub_env [] good_extractor good_llm post_ok)
        ''me@example.org'' ''secret'' (JStr ''https://quiz.example/q1'') (- 200000) s0))) = []
   \<and> snd (solveMasterQuiz (stub_env [] good_extractor good_llm post_ok)
        ''me@example.org'' ''secret'' (JStr ''https://quiz.example/q1'') (- 200000) s0) = s0
   \<and> solveMasterQuiz (stub_env [] good_extractor good_llm post_ok)
        ''me@example.org'' ''secret'' (JStr ''https://quiz.example/q1'') (- 200000) s0
      = ((\<lparr>currentUrl = JStr ''https://quiz.example/q1'', attemptCount = 1, invoked = []\<rparr>,
          TimeRunningOut), s0)
   \<and> TIMEOUT_MS - ((\<lambda>w. 165000) (7::nat) - 0) < 10000
   \<and> solveMasterQuiz_loop (\<lambda>w. 165000) always_next_solver 50 ''me@example.org'' ''secret'' 0
        \<lparr>currentUrl = JStr ''https://quiz.example/q5'', attemptCount = 4,
          invoked = [JStr ''https://quiz.example/q1'']\<rparr> (7::nat)
      = ((\<lparr>currentUrl = JStr ''https://quiz.example/q5'', attemptCount = 5,
            invoked = [JStr ''https://quiz.example/q1'']\<rparr>, TimeRunningOut), 7)"
proof -
  let ?v = "\<lparr>currentUrl = JStr ''https://quiz.example/q5'', attemptCount = 4,
          invoked = [JStr ''https://quiz.example/q1'']\<rparr>"
  have late: "TIMEOUT_MS - (Date_now (stub_env [] good_extractor good_llm post_ok) (world s0)
                - (- 200000)) < 10000"
    by (simp add: TIMEOUT_MS_def stub_env_def)
  have run: "solveMasterQuiz (stub_env [] good_extractor good_llm post_ok)
        ''me@example.org'' ''secret'' (JStr ''https://quiz.example/q1'') (- 200000) s0
      = ((\<lparr>currentUrl = JStr ''https://quiz.example/q1'', attemptCount = 1, invoked = []\<rparr>,
          TimeRunningOut), s0)"
    by code_simp
  have mid: "truthy (currentUrl ?v) \<and> attemptCount ?v < 50
      \<and> TIMEOUT_MS - ((\<lambda>w. 165000) (7::nat) - 0) < 10000"
    by (simp add: TIMEOUT_MS_def)
  from mid orchestrator_time_check [where v="?v" and maxAttempts=50 and now="\<lambda>w. 165000"
      and s="7::nat" and startTime=0 and solver=always_next_solver and email="''me@example.org''"
      and secret="''secret''", THEN conjunct1]
  have "solveMasterQuiz_loop (\<lambda>w. 165000) always_next_solver 50 ''me@example.org'' ''secret'' 0 ?v (7::nat)
      = ((?v\<lparr>attemptCount := attemptCount ?v + 1\<rparr>, TimeRunningOut), 7)"
    by blast
  then have stop: "solveMasterQuiz_loop (\<lambda>w. 165000) always_next_solver 50 ''me@example.org'' ''secret'' 0
        ?v (7::nat)
      = ((\<lparr>currentUrl = JStr ''https://quiz.example/q5'', attemptCount = 5,
            invoked = [JStr ''https://quiz.example/q1'']\<rparr>, TimeRunningOut), 7)"
    by simp
  from mid have mid': "TIMEOUT_MS - ((\<lambda>w. 165000) (7::nat) - 0) < 10000" by blast
  from late run
    orchestrator_time_check [where env="stub_env [] good_extractor good_llm post_ok" and st=s0
      and startTime="- 200000" and email="''me@example.org''" and secret="''secret''"
      and initialUrl="JStr ''https://quiz.example/q1''", THEN conjunct2]
  have "invoked (fst (fst (solveMasterQuiz (stub_env [] good_extractor good_llm post_ok)
        ''me@example.org'' ''secret'' (JStr ''https://quiz.example/q1'') (- 200000) s0))) = []
   \<and> snd (solveMasterQuiz (stub_env [] good_extractor good_llm post_ok)
        ''me@example.org'' ''secret'' (JStr ''https://quiz.example/q1'') (- 200000) s0) = s0"
    by blast
  with late run mid' stop show ?thesis by blast
qed



section \<open>Single-Quiz Solver: totality, submission, the files\<close>



lemma submitAnswer_cases:
  "submitAnswer env email secret quizUrl answer submit_url s =
     (case axios_post env submit_url (submission_payload email secret quizUrl answer) (world s) of
        (res, w) \<Rightarrow>
          (case res of
             Inr resp \<Rightarrow> Inr (data resp)
           | Inl err \<Rightarrow> (case response err of Some resp \<Rightarrow> Inr (data resp) | None \<Rightarrow> Inl err),
           \<lparr>world = w, calls = calls s @ [Called_axios_post submit_url
                                            (submission_payload email secret quizUrl answer)]\<rparr>))"
  by (simp add: submitAnswer_def call_def Let_def split: prod.splits sum.splits option.splits)

lemma get_prop_defined:
  "d \<noteq> JNull \<Longrightarrow> d \<noteq> JUndefined \<Longrightarrow> get_prop d key = Inr (property d key)"
  by (cases d) (simp_all add: get_prop_def)

text \<open>
  Claim C9. When \<open>axios.post\<close> throws an error that carries a response, \<open>submitAnswer\<close>
  returns that response's body and does not rethrow; it throws exactly when \<open>axios.post\<close>
  threw an error without a response. The attempt turns a returned body \<open>d\<close> (any value
  but \<open>null\<close> and \<open>undefined\<close>) into the result \<open>{success: d.correct, nextUrl: d.url,
  error: d.reason}\<close>, and an error thrown by the submission into \<open>{success: false,
  error: message}\<close>.
\<close>

theorem submitAnswer_error_body:
  "(axios_post env submit_url (submission_payload email secret quizUrl answer) (world s) = (Inl err, w)
      \<and> response err = Some resp \<longrightarrow>
      submitAnswer env email secret quizUrl answer submit_url s
        = (Inr (data resp),
           \<lparr>world = w, calls = calls s @ [Called_axios_post submit_url
                                            (submission_payload email secret quizUrl answer)]\<rparr>))
   \<and> (fst (submitAnswer env email secret quizUrl answer submit_url s) = Inl err \<longleftrightarrow>
        fst (axios_post env submit_url (submission_payload email secret quizUrl answer) (world s)) = Inl err
        \<and> response err = None)
   \<and> (call (Called_extractQuizFromPage quizUrl) (extractQuizFromPage env quizUrl) s = (Inr qd, s1)
        \<and> solveQuizQuestion env qd startTime s1 = (Inr answer, s2) \<longrightarrow>
        (submitAnswer env email secret quizUrl answer (submitUrl qd) s2 = (Inr d, s3)
           \<and> d \<noteq> JNull \<and> d \<noteq> JUndefined \<longrightarrow>
           solveSingleQuiz env email secret quizUrl startTime s
             = (Inr \<lparr>success = property d ''correct'', nextUrl = property d ''url'',
                      error = property d ''reason''\<rparr>, s3))
        \<and> (submitAnswer env email secret quizUrl answer (submitUrl qd) s2 = (Inl err, s3) \<longrightarrow>
           solveSingleQuiz env email secret quizUrl startTime s
             = (Inr \<lparr>success = JBool False, nextUrl = JUndefined, error = JStr (message err)\<rparr>, s3)))"
proof (intro conjI impI)
  assume "axios_post env submit_url (submission_payload email secret quizUrl answer) (world s) = (Inl err, w)
      \<and> response err = Some resp"
  then show "submitAnswer env email secret quizUrl answer submit_url s
        = (Inr (data resp),
           \<lparr>world = w, calls = calls s @ [Called_axios_post submit_url
                                            (submission_payload email secret quizUrl answer)]\<rparr>)"
    by (simp add: submitAnswer_cases)
next
  show "fst (submitAnswer env email secret quizUrl answer submit_url s) = Inl err \<longleftrightarrow>
        fst (axios_post env submit_url (submission_payload email secret quizUrl answer) (world s)) = Inl err
        \<and> response err = None"
    by (auto simp: submitAnswer_cases split: prod.splits sum.splits option.splits)
next
  assume pre: "call (Called_extractQuizFromPage quizUrl) (extractQuizFromPage env quizUrl) s = (Inr qd, s1)
        \<and> solveQuizQuestion env qd startTime s1 = (Inr answer, s2)"
  {
    assume sub: "submitAnswer env email secret quizUrl answer (submitUrl qd) s2 = (Inr d, s3)
           \<and> d \<noteq> JNull \<and> d \<noteq> JUndefined"
    with pre have "solveSingleQuiz_try env email secret quizUrl startTime s
             = (Inr \<lparr>success = property d ''correct'', nextUrl = property d ''url'',
                      error = property d ''reason''\<rparr>, s3)"
      by (simp add: solveSingleQuiz_try_def get_prop_defined)
    then show "solveSingleQuiz env email secret quizUrl startTime s
             = (Inr \<lparr>success = property d ''correct'', nextUrl = property d ''url'',
                      error = property d ''reason''\<rparr>, s3)"
      by (rule solveSingleQuiz_on_return)
  }
  assume sub: "submitAnswer env email secret quizUrl answer (submitUrl qd) s2 = (Inl err, s3)"
  with pre have "solveSingleQuiz_try env email secret quizUrl startTime s = (Inl err, s3)"
    by (simp add: solveSingleQuiz_try_def)
  then show "solveSingleQuiz env email secret quizUrl startTime s
             = (Inr \<lparr>success = JBool False, nextUrl = JUndefined, error = JStr (message err)\<rparr>, s3)"
    by (rule solveSingleQuiz_on_throw)
qed

text \<open>
  The theorem on a grading server that answers with status 400 and the body
  \<open>{correct: false, url: "https://next", reason: "wrong answer"}\<close>: \<open>submitAnswer\<close>
  returns the body, and the attempt's result is read from it. On a server that cannot be
  reached the error has no response, the submission throws, and the attempt returns the
  failure result with the error's message.
\<close>

theorem submitAnswer_error_body_witness:
  "response (Error ''Request failed with status code 400''
       (Some \<lparr>status = 400,
              data = JObj [(''correct'', JBool False), (''url'', JStr ''https://next''),
                           (''reason'', JStr ''wrong answer'')]\<rparr>))
     = Some \<lparr>status = 400,
             data = JObj [(''correct'', JBool False), (''url'', JStr ''https://next''),
                          (''reason'', JStr ''wrong answer'')]\<rparr>
   \<and> fst (submitAnswer (stub_env [] good_extractor good_llm post_rejected)
          ''me@example.org'' ''secret'' (JStr ''https://quiz.example/q1'') (JNum (Num 4))
          (Some ''https://quiz.example/submit'') s0)
       = Inr (JObj [(''correct'', JBool False), (''url'', JStr ''https://next''),
                    (''reason'', JStr ''wrong answer'')])
   \<and> fst (solveSingleQuiz (stub_env [] good_extractor good_llm post_rejected)
          ''me@example.org'' ''secret'' (JStr ''https://quiz.example/q1'') 0 s0)
       = Inr \<lparr>success = JBool False, nextUrl = JStr ''https://next'', error = JStr ''wrong answer''\<rparr>
   \<and> fst (solveSingleQuiz (stub_env [] good_extractor good_llm post_unreachable)
          ''me@example.org'' ''secret'' (JStr ''https://quiz.example/q1'') 0 s0)
       = Inr \<lparr>success = JBool False, nextUrl = JUndefined,
              error = JStr ''timeout of 30000ms exceeded''\<rparr>"
proof -
  let ?E = "stub_env [] good_extractor good_llm post_rejected"
  let ?d = "JObj [(''correct'', JBool False), (''url'', JStr ''https://next''),
                  (''reason'', JStr ''wrong answer'')]"
  let ?resp = "\<lparr>status = 400, data = ?d\<rparr>"
  let ?err = "Error ''Request failed with status code 400'' (Some ?resp)"
  let ?q = "JStr ''https://quiz.example/q1''"
  let ?u = "Some ''https://quiz.example/submit''"
  let ?s1 = "snd (call (Called_extractQuizFromPage ?q) (extractQuizFromPage ?E ?q) s0)"
  let ?s2 = "snd (solveQuizQuestion ?E (stub_page []) 0 ?s1)"
  let ?s3 = "snd (submitAnswer ?E ''me@example.org'' ''secret'' ?q (JNum (Num 4)) ?u ?s2)"
  note T = submitAnswer_error_body [where env="?E" and email="''me@example.org''"
      and secret="''secret''" and quizUrl="?q" and answer="JNum (Num 4)" and submit_url="?u"
      and s=s0 and err="?err" and resp="?resp" and w=0 and qd="stub_page []" and startTime=0
      and ?s1.0="?s1" and ?s2.0="?s2" and ?s3.0="?s3" and d="?d"]
  have post: "axios_post ?E ?u (submission_payload ''me@example.org'' ''secret'' ?q (JNum (Num 4))) (world s0)
                = (Inl ?err, 0)"
    by (simp add: stub_env_def post_rejected_def s0_def)
  have resp: "response ?err = Some ?resp" by simp
  from T post resp have sub: "submitAnswer ?E ''me@example.org'' ''secret'' ?q (JNum (Num 4)) ?u s0
        = (Inr (data ?resp),
           \<lparr>world = 0, calls = calls s0 @ [Called_axios_post ?u
               (submission_payload ''me@example.org'' ''secret'' ?q (JNum (Num 4)))]\<rparr>)"
    by blast
  have page: "fst (call (Called_extractQuizFromPage ?q) (extractQuizFromPage ?E ?q) s0) = Inr (stub_page [])"
    by (simp add: call_def stub_env_def)
  have ans: "fst (solveQuizQuestion ?E (stub_page []) 0 ?s1) = Inr (JNum (Num 4))"
    by code_simp
  have body: "fst (submitAnswer ?E ''me@example.org'' ''secret'' ?q (JNum (Num 4))
                 (submitUrl (stub_page [])) ?s2) = Inr ?d"
    by code_simp
  have url: "submitUrl (stub_page []) = ?u" by (simp add: stub_page_def)
  from page ans have pre: "call (Called_extractQuizFromPage ?q) (extractQuizFromPage ?E ?q) s0
          = (Inr (stub_page []), ?s1)
        \<and> solveQuizQuestion ?E (stub_page []) 0 ?s1 = (Inr (JNum (Num 4)), ?s2)"
    by (simp add: prod_eq_iff)
  from body url have sub3: "submitAnswer ?E ''me@example.org'' ''secret'' ?q (JNum (Num 4))
                 (submitUrl (stub_page [])) ?s2 = (Inr ?d, ?s3) \<and> ?d \<noteq> JNull \<and> ?d \<noteq> JUndefined"
    by (simp add: prod_eq_iff)
  from T pre sub3 have "solveSingleQuiz ?E ''me@example.org'' ''secret'' ?q 0 s0
             = (Inr \<lparr>success = property ?d ''correct'', nextUrl = property ?d ''url'',
                      error = property ?d ''reason''\<rparr>, ?s3)"
    by blast
  then have res: "fst (solveSingleQuiz ?E ''me@example.org'' ''secret'' ?q 0 s0)
       = Inr \<lparr>success = JBool False, nextUrl = JStr ''https://next'', error = JStr ''wrong answer''\<rparr>"
    by (simp add: property_def)
  let ?G = "stub_env [] good_extractor good_llm post_unreachable"
  let ?t1 = "snd (call (Called_extractQuizFromPage ?q) (extractQuizFromPage ?G ?q) s0)"
  let ?t2 = "snd (solveQuizQuestion ?G (stub_page []) 0 ?t1)"
  let ?t3 = "snd (submitAnswer ?G ''me@example.org'' ''secret'' ?q (JNum (Num 4))
                    (submitUrl (stub_page [])) ?t2)"
  let ?timeout = "Error ''timeout of 30000ms exceeded'' None"
  have page': "fst (call (Called_extractQuizFromPage ?q) (extractQuizFromPage ?G ?q) s0) = Inr (stub_page [])"
    by (simp add: call_def stub_env_def)
  have ans': "fst (solveQuizQuestion ?G (stub_page []) 0 ?t1) = Inr (JNum (Num 4))"
    by code_simp
  have thrown: "fst (submitAnswer ?G ''me@example.org'' ''secret'' ?q (JNum (Num 4))
                 (submitUrl (stub_page [])) ?t2) = Inl ?timeout"
    by code_simp
  from page' ans' have pre': "call (Called_extractQuizFromPage ?q) (extractQuizFromPage ?G ?q) s0
          = (Inr (stub_page []), ?t1)
        \<and> solveQuizQuestion ?G (stub_page []) 0 ?t1 = (Inr (JNum (Num 4)), ?t2)"
    by (simp add: prod_eq_iff)
  from thrown have sub': "submitAnswer ?G ''me@example.org'' ''secret'' ?q (JNum (Num 4))
                 (submitUrl (stub_page [])) ?t2 = (Inl ?timeout, ?t3)"
    by (simp add: prod_eq_iff)
  from pre' sub'
    submitAnswer_error_body [where env="?G" and email="''me@example.org''"
      and secret="''secret''" and quizUrl="?q" and answer="JNum (Num 4)"
      and s=s0 and err="?timeout" and qd="stub_page []" and startTime=0
      and ?s1.0="?t1" and ?s2.0="?t2" and ?s3.0="?t3"]
  have "solveSingleQuiz ?G ''me@example.org'' ''secret'' ?q 0 s0
             = (Inr \<lparr>success = JBool False, nextUrl = JUndefined, error = JStr (message ?timeout)\<rparr>, ?t3)"
    by blast
  then have unreachable: "fst (solveSingleQuiz ?G ''me@example.org'' ''secret'' ?q 0 s0)
       = Inr \<lparr>success = JBool False, nextUrl = JUndefined,
              error = JStr ''timeout of 30000ms exceeded''\<rparr>"
    by simp
  from resp sub res unreachable show ?thesis by simp
qed

text \<open>
  Claim C4, as the code has it. When the iterations over the files before \<open>f\<close> all threw
  and the iteration over \<open>f\<close> returns the answer \<open>a\<close>, \<open>solveQuizQuestion\<close> returns \<open>a\<close> in
  the state that iteration left, whatever files follow \<open>f\<close> in the list: none of them is
  tried. In that iteration the file yielded content, one file-grounded prompt was sent to
  the LLM client, the client returned, and \<open>a\<close> is its normalized answer. An iteration
  over a file that yielded content but whose LLM query throws does not end the loop: it
  throws, and the loop goes on with the files that follow.
\<close>

theorem first_success_wins:
  "(files qd = pre @ f # post
    \<and> (\<forall>i<length pre. isl (fst (processFile env (question qd) (content qd) (pre ! i)
                               (snd (processFiles env (question qd) (content qd) (take i pre) s)))))
    \<and> processFile env (question qd) (content qd) f
        (snd (processFiles env (question qd) (content qd) pre s)) = (Inr a, s') \<longrightarrow>
    solveQuizQuestion env qd startTime s = (Inr a, s')
    \<and> processFiles env (question qd) (content qd) (pre @ f # post) s = (Some a, s')
    \<and> (\<exists>pd raw. fst (extractContent env f (snd (processFiles env (question qd) (content qd) pre s))) = Inr pd
          \<and> fst (askClaude env
                    (analysisPrompt (question qd) (text' f) (render_processed env pd) (content qd))
                    (world (snd (extractContent env f
                                   (snd (processFiles env (question qd) (content qd) pre s))))))
              = Inr raw
          \<and> parseAnswer (JSON_parse env) raw = Inr a
          \<and> llm_queries (calls s')
              = llm_queries (calls (snd (processFiles env (question qd) (content qd) pre s)))
                @ [analysisPrompt (question qd) (text' f) (render_processed env pd) (content qd)]))
   \<and> (fst (extractContent env g t) = Inr pd'
        \<and> fst (askClaude env (analysisPrompt q (text' g) (render_processed env pd') c)
                  (world (snd (extractContent env g t)))) = Inl e \<longrightarrow>
        fst (processFile env q c g t) = Inl e
        \<and> processFiles env q c (g # more_files) t
            = processFiles env q c more_files (snd (processFile env q c g t)))"
proof (intro conjI impI)
  let ?q = "question qd" and ?c = "content qd"
  let ?sp = "snd (processFiles env ?q ?c pre s)"
  assume h: "files qd = pre @ f # post
   \<and> (\<forall>i<length pre. isl (fst (processFile env ?q ?c (pre ! i)
                               (snd (processFiles env ?q ?c (take i pre) s)))))
   \<and> processFile env ?q ?c f ?sp = (Inr a, s')"
  then have none: "fst (processFiles env ?q ?c pre s) = None"
    by (simp add: processFiles_None_iff)
  from h have pf: "processFile env ?q ?c f ?sp = (Inr a, s')" by simp
  show run: "processFiles env ?q ?c (pre @ f # post) s = (Some a, s')"
    using processFiles_append[OF none, of "f # post"] pf by simp
  with h show "solveQuizQuestion env qd startTime s = (Inr a, s')"
    by (simp add: solveQuizQuestion_cases)
  from processFile_success[OF pf] obtain pd s1 raw where
    ex: "extractContent env f ?sp = (Inr pd, s1)"
    and llm: "askClaude env (analysisPrompt ?q (text' f) (render_processed env pd) ?c) (world s1)
                = (Inr raw, world s')"
    and norm: "parseAnswer (JSON_parse env) raw = Inr a"
    and cs: "calls s' = calls s1 @ [Called_askClaude (analysisPrompt ?q (text' f) (render_processed env pd) ?c)]"
    by blast
  from extractContent_llm_queries[of env f ?sp] ex
  have "llm_queries (calls s1) = llm_queries (calls ?sp)" by simp
  with cs have "llm_queries (calls s')
      = llm_queries (calls ?sp) @ [analysisPrompt ?q (text' f) (render_processed env pd) ?c]"
    by (simp add: llm_queries_append)
  with ex llm norm show "\<exists>pd raw. fst (extractContent env f ?sp) = Inr pd
          \<and> fst (askClaude env (analysisPrompt ?q (text' f) (render_processed env pd) ?c)
                    (world (snd (extractContent env f ?sp)))) = Inr raw
          \<and> parseAnswer (JSON_parse env) raw = Inr a
          \<and> llm_queries (calls s')
              = llm_queries (calls ?sp) @ [analysisPrompt ?q (text' f) (render_processed env pd) ?c]"
    by auto
next
  assume h: "fst (extractContent env g t) = Inr pd'
        \<and> fst (askClaude env (analysisPrompt q (text' g) (render_processed env pd') c)
                  (world (snd (extractContent env g t)))) = Inl e"
  then show thrown: "fst (processFile env q c g t) = Inl e"
    using processFile_llm_throws by blast
  then have "processFile env q c g t = (Inl e, snd (processFile env q c g t))"
    by (simp add: prod_eq_iff)
  then show "processFiles env q c (g # more_files) t
            = processFiles env q c more_files (snd (processFile env q c g t))"
    by (rule processFiles_skip)
qed

text \<open>
  The theorem on the files \<open>c.csv\<close>, \<open>b.txt\<close>, \<open>a.txt\<close> with an extractor that throws:
  the first iteration throws, the second returns 4, and \<open>a.txt\<close> is never downloaded.
  And on the files \<open>a.txt\<close>, \<open>b.txt\<close> with an LLM client whose first query throws:
  \<open>a.txt\<close> yields content, its iteration throws, and the loop goes on with \<open>b.txt\<close>.
\<close>

theorem first_success_wins_witness:
  "files (stub_page [file_c, file_b, file_a]) = [file_c] @ file_b # [file_a]
   \<and> isl (fst (processFile (stub_env [file_c, file_b, file_a] bad_extractor good_llm post_ok)
               ''What is 2+2?'' ''page text'' file_c s0))
   \<and> fst (solveQuizQuestion (stub_env [file_c, file_b, file_a] bad_extractor good_llm post_ok)
            (stub_page [file_c, file_b, file_a]) 0 s0) = Inr (JNum (Num 4))
   \<and> Called_downloadFile (url file_a)
        \<notin> set (calls (snd (solveQuizQuestion (stub_env [file_c, file_b, file_a] bad_extractor good_llm post_ok)
                           (stub_page [file_c, file_b, file_a]) 0 s0)))
   \<and> length (llm_queries (calls (snd (solveQuizQuestion
        (stub_env [file_c, file_b, file_a] bad_extractor good_llm post_ok)
        (stub_page [file_c, file_b, file_a]) 0 s0)))) = 1
   \<and> fst (extractContent (stub_env [file_a, file_b] good_extractor flaky_llm post_ok) file_a s0)
       = Inr (JStr ''1,2'')
   \<and> fst (processFile (stub_env [file_a, file_b] good_extractor flaky_llm post_ok)
            ''What is 2+2?'' ''page text'' file_a s0) = Inl (Error ''Claude API error'' None)
   \<and> processFiles (stub_env [file_a, file_b] good_extractor flaky_llm post_ok)
        ''What is 2+2?'' ''page text'' [file_a, file_b] s0
      = processFiles (stub_env [file_a, file_b] good_extractor flaky_llm post_ok)
        ''What is 2+2?'' ''page text'' [file_b]
        (snd (processFile (stub_env [file_a, file_b] good_extractor flaky_llm post_ok)
            ''What is 2+2?'' ''page text'' file_a s0))"
proof -
  let ?E = "stub_env [file_c, file_b, file_a] bad_extractor good_llm post_ok"
  let ?qd = "stub_page [file_c, file_b, file_a]"
  let ?sp = "snd (processFiles ?E (question ?qd) (content ?qd) [file_c] s0)"
  let ?s' = "snd (processFile ?E (question ?qd) (content ?qd) file_b ?sp)"
  let ?F = "stub_env [file_a, file_b] good_extractor flaky_llm post_ok"
  have fs: "files ?qd = [file_c] @ file_b # [file_a]" by (simp add: stub_page_def)
  have q: "question ?qd = ''What is 2+2?''" and c: "content ?qd = ''page text''"
    by (simp_all add: stub_page_def)
  have p0: "isl (fst (processFile ?E (question ?qd) (content ?qd) file_c s0))" by code_simp
  then have earlier: "\<forall>i<length [file_c]. isl (fst (processFile ?E (question ?qd) (content ?qd) ([file_c] ! i)
                               (snd (processFiles ?E (question ?qd) (content ?qd) (take i [file_c]) s0))))"
    by simp
  have "fst (processFile ?E (question ?qd) (content ?qd) file_b ?sp) = Inr (JNum (Num 4))"
    by code_simp
  then have this_one: "processFile ?E (question ?qd) (content ?qd) file_b ?sp = (Inr (JNum (Num 4)), ?s')"
    by (simp add: prod_eq_iff)
  from fs earlier this_one
    first_success_wins [where qd="?qd" and pre="[file_c]" and f=file_b and post="[file_a]"
      and env="?E" and s=s0 and a="JNum (Num 4)" and s'="?s'" and startTime=0, THEN conjunct1]
  have "solveQuizQuestion ?E ?qd 0 s0 = (Inr (JNum (Num 4)), ?s')" by blast
  then have answer: "fst (solveQuizQuestion ?E ?qd 0 s0) = Inr (JNum (Num 4))" by simp
  have untouched: "Called_downloadFile (url file_a) \<notin> set (calls (snd (solveQuizQuestion ?E ?qd 0 s0)))"
    by code_simp
  have once: "length (llm_queries (calls (snd (solveQuizQuestion ?E ?qd 0 s0)))) = 1"
    by code_simp
  have content: "fst (extractContent ?F file_a s0) = Inr (JStr ''1,2'')"
    by code_simp
  have query: "fst (askClaude ?F (analysisPrompt ''What is 2+2?'' (text' file_a)
                       (render_processed ?F (JStr ''1,2'')) ''page text'')
                  (world (snd (extractContent ?F file_a s0)))) = Inl (Error ''Claude API error'' None)"
    by code_simp
  from content query
    first_success_wins [where env="?F" and g=file_a and t=s0 and pd'="JStr ''1,2''"
      and q="''What is 2+2?''" and c="''page text''" and e="Error ''Claude API error'' None"
      and more_files="[file_b]", THEN conjunct2]
  have skipped: "fst (processFile ?F ''What is 2+2?'' ''page text'' file_a s0)
                   = Inl (Error ''Claude API error'' None)
        \<and> processFiles ?F ''What is 2+2?'' ''page text'' (file_a # [file_b]) s0
            = processFiles ?F ''What is 2+2?'' ''page text'' [file_b]
                (snd (processFile ?F ''What is 2+2?'' ''page text'' file_a s0))"
    by blast
  from fs p0 answer untouched once content skipped show ?thesis unfolding q c by blast
qed

text \<open>
  Claim C4 as stated fails when the LLM query for a file throws: the first file
  \<open>a.txt\<close> yields content, the query for it throws, and the solver goes on to \<open>b.txt\<close>,
  downloads it and queries the LLM client a second time.
\<close>

theorem first_success_wins_counterexample:
  "fst (extractContent (stub_env [file_a, file_b] good_extractor flaky_llm post_ok) file_a s0)
     = Inr (JStr ''1,2'')
   \<and> fst (processFile (stub_env [file_a, file_b] good_extractor flaky_llm post_ok)
            ''What is 2+2?'' ''page text'' file_a s0) = Inl (Error ''Claude API error'' None)
   \<and> Called_downloadFile (url file_b)
        \<in> set (calls (snd (solveQuizQuestion (stub_env [file_a, file_b] good_extractor flaky_llm post_ok)
                           (stub_page [file_a, file_b]) 0 s0)))
   \<and> length (llm_queries (calls (snd (solveQuizQuestion
        (stub_env [file_a, file_b] good_extractor flaky_llm post_ok)
        (stub_page [file_a, file_b]) 0 s0)))) = 2"
  by code_simp

lemma every_extraction_failed_threw:
  "every_extraction_failed env qd s \<Longrightarrow> every_iteration_threw env qd s"
  unfolding every_extraction_failed_def every_iteration_threw_def list_all_iff
proof
  fix i
  let ?q = "question qd" and ?c = "content qd"
  let ?si = "snd (processFiles env ?q ?c (take i (files qd)) s)"
  assume all: "\<forall>i\<in>set [0..<length (files qd)]. isl (fst (extractContent env (files qd ! i)
                  (snd (processFiles env ?q ?c (take i (files qd)) s))))"
    and i: "i \<in> set [0..<length (files qd)]"
  then have "isl (fst (extractContent env (files qd ! i) ?si))" by blast
  then obtain e s1 where "extractContent env (files qd ! i) ?si = (Inl e, s1)"
    by (cases "extractContent env (files qd ! i) ?si") (auto simp: isl_def)
  then have "processFile env ?q ?c (files qd ! i) ?si = (Inl e, s1)"
    by (rule processFile_extract_fail)
  then show "isl (fst (processFile env ?q ?c (files qd ! i) ?si))" by simp
qed

text \<open>
  Claim C8, as the code has it. An extractor (or download) that throws makes the
  iteration over that file throw, the loop catches it and goes on with the next file in
  the state the failed iteration left. An error that \<open>solveQuizQuestion\<close> throws is never
  one from a file: every iteration threw and was caught, and the error is the one the LLM
  client threw on the context-only prompt. The context-only prompt is used exactly when
  every iteration of the loop over the files threw, which is so when the list is empty
  and when every file failed to yield content. An iteration throws exactly when the file
  fails to yield content or the LLM query made with its content throws.
\<close>

theorem extraction_failure_nonfatal:
  "(extractContent env f s = (Inl e, s1) \<longrightarrow>
      processFile env q c f s = (Inl e, s1)
      \<and> processFiles env q c (f # fs) s = processFiles env q c fs s1)
   \<and> (solveQuizQuestion env qd startTime s = (Inl e, s') \<longrightarrow>
        every_iteration_threw env qd s
        \<and> askClaude env (directPrompt (question qd) (content qd))
              (world (snd (processFiles env (question qd) (content qd) (files qd) s)))
            = (Inl e, world s'))
   \<and> (direct_prompt_used env qd startTime s \<longleftrightarrow> every_iteration_threw env qd s)
   \<and> (files qd = [] \<longrightarrow> direct_prompt_used env qd startTime s)
   \<and> (every_extraction_failed env qd s \<longrightarrow> direct_prompt_used env qd startTime s)
   \<and> (isl (fst (processFile env q c f s)) \<longleftrightarrow>
        isl (fst (extractContent env f s))
        \<or> (\<exists>pd. fst (extractContent env f s) = Inr pd
              \<and> isl (fst (askClaude env (analysisPrompt q (text' f) (render_processed env pd) c)
                            (world (snd (extractContent env f s)))))))"
proof (intro conjI impI)
  assume ex: "extractContent env f s = (Inl e, s1)"
  then show pf: "processFile env q c f s = (Inl e, s1)" by (rule processFile_extract_fail)
  then show "processFiles env q c (f # fs) s = processFiles env q c fs s1" by simp
next
  let ?q = "question qd" and ?c = "content qd"
  assume thrown: "solveQuizQuestion env qd startTime s = (Inl e, s')"
  obtain r1 sf where pf: "processFiles env ?q ?c (files qd) s = (r1, sf)"
    by (cases "processFiles env ?q ?c (files qd) s")
  from thrown pf have r1: "r1 = None"
    by (cases r1) (simp_all add: solveQuizQuestion_cases)
  with pf show "every_iteration_threw env qd s" by (simp add: every_iteration_threw_iff)
  obtain r2 w2 where llm: "askClaude env (directPrompt ?q ?c) (world sf) = (r2, w2)"
    by (cases "askClaude env (directPrompt ?q ?c) (world sf)")
  obtain v where norm: "\<And>raw. parseAnswer (JSON_parse env) raw \<noteq> Inl v"
    by (simp add: parseAnswer_def Let_def split: option.splits sum.splits)
  have "r2 = Inl e \<and> w2 = world s'"
  proof (cases r2)
    case (Inl e2)
    with thrown pf r1 llm show ?thesis
      by (auto simp: solveQuizQuestion_cases call_def)
  next
    case (Inr raw)
    with thrown pf r1 llm have "parseAnswer (JSON_parse env) raw = Inl e"
      by (auto simp: solveQuizQuestion_cases call_def)
    then show ?thesis
      by (simp add: parseAnswer_def Let_def split: option.splits sum.splits if_splits)
  qed
  with llm pf show "askClaude env (directPrompt ?q ?c)
              (world (snd (processFiles env ?q ?c (files qd) s))) = (Inl e, world s')"
    by simp
next
  show "direct_prompt_used env qd startTime s \<longleftrightarrow> every_iteration_threw env qd s"
    by (simp add: direct_prompt_used_iff every_iteration_threw_iff)
next
  assume "files qd = []"
  then show "direct_prompt_used env qd startTime s"
    by (simp add: direct_prompt_used_iff)
next
  assume "every_extraction_failed env qd s"
  then have "every_iteration_threw env qd s" by (rule every_extraction_failed_threw)
  then show "direct_prompt_used env qd startTime s"
    by (simp add: direct_prompt_used_iff every_iteration_threw_iff)
next
  show "isl (fst (processFile env q c f s)) \<longleftrightarrow>
        isl (fst (extractContent env f s))
        \<or> (\<exists>pd. fst (extractContent env f s) = Inr pd
              \<and> isl (fst (askClaude env (analysisPrompt q (text' f) (render_processed env pd) c)
                            (world (snd (extractContent env f s))))))"
    by (rule processFile_throws_iff)
qed

text \<open>
  The theorem with an extractor that throws. On the files \<open>c.csv\<close>, \<open>b.txt\<close> the
  extraction of \<open>c.csv\<close> throws, the loop goes on to \<open>b.txt\<close>, whose answer is returned,
  and the context-only prompt is not used. On \<open>c.csv\<close> alone every extraction failed
  and the context-only prompt is used. On a page without files the context-only prompt
  is used, and with an LLM client that throws the error thrown is the LLM client's.
\<close>

theorem extraction_failure_nonfatal_witness:
  "fst (extractContent (stub_env [file_c, file_b] bad_extractor good_llm post_ok) file_c s0)
     = Inl (Error ''malformed payload'' None)
   \<and> processFiles (stub_env [file_c, file_b] bad_extractor good_llm post_ok)
        ''What is 2+2?'' ''page text'' [file_c, file_b] s0
     = processFiles (stub_env [file_c, file_b] bad_extractor good_llm post_ok)
        ''What is 2+2?'' ''page text'' [file_b]
        (snd (extractContent (stub_env [file_c, file_b] bad_extractor good_llm post_ok) file_c s0))
   \<and> fst (solveQuizQuestion (stub_env [file_c, file_b] bad_extractor good_llm post_ok)
            (stub_page [file_c, file_b]) 0 s0) = Inr (JNum (Num 4))
   \<and> \<not> direct_prompt_used (stub_env [file_c, file_b] bad_extractor good_llm post_ok)
            (stub_page [file_c, file_b]) 0 s0
   \<and> every_extraction_failed (stub_env [file_c] bad_extractor good_llm post_ok) (stub_page [file_c]) s0
   \<and> direct_prompt_used (stub_env [file_c] bad_extractor good_llm post_ok) (stub_page [file_c]) 0 s0
   \<and> fst (solveQuizQuestion (stub_env [] good_extractor flaky_llm post_ok) (stub_page []) 0 s0)
       = Inl (Error ''Claude API error'' None)
   \<and> every_iteration_threw (stub_env [] good_extractor flaky_llm post_ok) (stub_page []) s0
   \<and> files (stub_page []) = []
   \<and> direct_prompt_used (stub_env [] good_extractor flaky_llm post_ok) (stub_page []) 0 s0"
proof -
  let ?E = "stub_env [file_c, file_b] bad_extractor good_llm post_ok"
  let ?G = "stub_env [file_c] bad_extractor good_llm post_ok"
  let ?F = "stub_env [] good_extractor flaky_llm post_ok"
  let ?s1 = "snd (extractContent ?E file_c s0)"
  let ?s' = "snd (solveQuizQuestion ?F (stub_page []) 0 s0)"
  have exf: "fst (extractContent ?E file_c s0) = Inl (Error ''malformed payload'' None)"
    by code_simp
  then have ex: "extractContent ?E file_c s0 = (Inl (Error ''malformed payload'' None), ?s1)"
    by (simp add: prod_eq_iff)
  from ex extraction_failure_nonfatal [where env="?E" and f=file_c and s=s0
      and e="Error ''malformed payload'' None" and ?s1.0="?s1" and q="''What is 2+2?''"
      and c="''page text''" and fs="[file_b]", THEN conjunct1]
  have next_file: "processFiles ?E ''What is 2+2?'' ''page text'' [file_c, file_b] s0
     = processFiles ?E ''What is 2+2?'' ''page text'' [file_b] ?s1"
    by blast
  have answer: "fst (solveQuizQuestion ?E (stub_page [file_c, file_b]) 0 s0) = Inr (JNum (Num 4))"
    by code_simp
  have unused: "\<not> direct_prompt_used ?E (stub_page [file_c, file_b]) 0 s0"
    by code_simp
  have failed: "every_extraction_failed ?G (stub_page [file_c]) s0"
    by code_simp
  from failed extraction_failure_nonfatal [where env="?G" and qd="stub_page [file_c]" and s=s0
      and startTime=0, THEN conjunct2, THEN conjunct2, THEN conjunct2, THEN conjunct2, THEN conjunct1]
  have used: "direct_prompt_used ?G (stub_page [file_c]) 0 s0"
    by blast
  have thrf: "fst (solveQuizQuestion ?F (stub_page []) 0 s0) = Inl (Error ''Claude API error'' None)"
    by code_simp
  then have thrown: "solveQuizQuestion ?F (stub_page []) 0 s0 = (Inl (Error ''Claude API error'' None), ?s')"
    by (simp add: prod_eq_iff)
  from thrown extraction_failure_nonfatal [where env="?F" and qd="stub_page []" and s=s0
      and startTime=0 and e="Error ''Claude API error'' None" and s'="?s'",
      THEN conjunct2, THEN conjunct1]
  have caught: "every_iteration_threw ?F (stub_page []) s0"
    by blast
  have empty: "files (stub_page []) = []" by (simp add: stub_page_def)
  from empty extraction_failure_nonfatal [where env="?F" and qd="stub_page []" and s=s0
      and startTime=0, THEN conjunct2, THEN conjunct2, THEN conjunct2, THEN conjunct1]
  have no_files: "direct_prompt_used ?F (stub_page []) 0 s0"
    by blast
  from exf next_file answer unused failed used thrf caught empty no_files show ?thesis by blast
qed

text \<open>
  Claim C8 as stated fails when the LLM query for a file throws: the only file \<open>a.txt\<close>
  yields content, so not every file failed to yield content and the list is not empty,
  yet the query for it throws and the context-only prompt is used.
\<close>

theorem extraction_failure_nonfatal_counterexample:
  "files (stub_page [file_a]) \<noteq> []
   \<and> fst (extractContent (stub_env [file_a] good_extractor flaky_llm post_ok) file_a s0)
       = Inr (JStr ''1,2'')
   \<and> \<not> every_extraction_failed (stub_env [file_a] good_extractor flaky_llm post_ok) (stub_page [file_a]) s0
   \<and> direct_prompt_used (stub_env [file_a] good_extractor flaky_llm post_ok) (stub_page [file_a]) 0 s0"
  by code_simp

section \<open>A whole chain\<close>

text \<open>
  A page without files and the question \<open>What is 2+2?\<close>; the LLM client answers \<open>4\<close>,
  which is normalized to the number 4 and submitted; the grading server answers
  \<open>{correct: true, url: null}\<close>. The chain ends after one attempt, completed, having
  called the renderer, the LLM client with the context-only prompt, and the server.
\<close>

lemma chain_of_one_quiz:
  "solveMasterQuiz (stub_env [] good_extractor good_llm post_ok)
     ''me@example.org'' ''secret'' (JStr ''https://quiz.example/q1'') 0 s0
   = ((\<lparr>currentUrl = JStr ''https://quiz.example/q1'', attemptCount = 1,
         invoked = [JStr ''https://quiz.example/q1'']\<rparr>, ChainCompleted),
      \<lparr>world = 1,
        calls = [Called_extractQuizFromPage (JStr ''https://quiz.example/q1''),
                 Called_askClaude (directPrompt ''What is 2+2?'' ''page text''),
                 Called_axios_post (Some ''https://quiz.example/submit'')
                   (submission_payload ''me@example.org'' ''secret''
                      (JStr ''https://quiz.example/q1'') (JNum (Num 4)))]\<rparr>)"
  by code_simp

end
